theory Spec2Isabelle
  imports Main
begin

section \<open>Text\<close>

text \<open>
  Python strings are modelled as HOL strings. Every literal of the program is ASCII, apart
  from the rupee sign in the payment data, which is written as its three UTF-8 bytes.
  A character outside ASCII is the sequence of its UTF-8 bytes. \<open>lower\<close> is \<open>str.lower\<close> on
  the ASCII letters and leaves every other byte as it is: it agrees with \<open>str.lower\<close> on
  the texts whose characters outside ASCII \<open>str.lower\<close> does not change (Devanagari, the
  other script of a Hinglish call, has no case), and not on an accented capital. The
  only character outside ASCII that \<open>str.lower\<close> turns into ASCII text is the Kelvin sign,
  which becomes \<open>k\<close>, a letter of no exit command, and no character lowers to the empty
  text: the exit and empty-input decisions of the loop are those of the program for
  every text. Where the lowered text itself is the subject, \<open>str.lower\<close> is a parameter:
  see the section on the call with \<open>str.lower\<close> as a parameter.
\<close>

definition lower_char :: "char \<Rightarrow> char" where
  "lower_char c =
     (let n = (of_char c :: nat) in if 65 \<le> n \<and> n \<le> 90 then char_of (n + 32) else c)"

definition lower :: "string \<Rightarrow> string" where
  "lower s = map lower_char s"


definition is_digit :: "char \<Rightarrow> bool" where
  "is_digit c = (48 \<le> (of_char c :: nat) \<and> (of_char c :: nat) \<le> 57)"

text \<open>Two strings compared without regard to the case of their letters.\<close>

definition equal_ignoring_case :: "string \<Rightarrow> string \<Rightarrow> bool" where
  "equal_ignoring_case s t = (lower s = lower t)"

section \<open>Exceptions\<close>

text \<open>
  The exceptions of the model are instances of Python's \<open>Exception\<close>: the three that
  \<open>str.format\<close> raises, and \<open>Error\<close> for whatever an external service raises.
  \<open>Unmodelled\<close> marks a replacement field whose meaning lies outside the fragment of
  \<open>str.format\<close> that is modelled: a well-formed field that applies an attribute, an
  index, a conversion or a format specification to a keyword argument that is there. No
  template of the program has such a field.
\<close>

datatype exn = KeyError string | IndexError | ValueError | Unmodelled | Error string

section \<open>ConversationMemory\<close>

record message =
  role :: string
  content :: string

record ConversationMemory =
  context' :: "string \<rightharpoonup> (string \<rightharpoonup> string)"
  messages :: "message list"

definition new_memory :: ConversationMemory where
  "new_memory =
     \<lparr>context' = [''profile'' \<mapsto> Map.empty, ''knowledge'' \<mapsto> Map.empty], messages = []\<rparr>"

definition add_user_message :: "string \<Rightarrow> ConversationMemory \<Rightarrow> ConversationMemory" where
  "add_user_message msg m = m\<lparr>messages := messages m @ [\<lparr>role = ''user'', content = msg\<rparr>]\<rparr>"

definition add_agent_message :: "string \<Rightarrow> ConversationMemory \<Rightarrow> ConversationMemory" where
  "add_agent_message msg m = m\<lparr>messages := messages m @ [\<lparr>role = ''agent'', content = msg\<rparr>]\<rparr>"

text \<open>One pass of the loop body of \<open>get_conversation_history\<close>: \<open>history += f"{prefix}: {content}\n"\<close>.\<close>

definition history_step :: "string \<Rightarrow> message \<Rightarrow> string" where
  "history_step history msg =
     (let prefix = (if role msg = ''user'' then ''Customer'' else ''AI'')
      in history @ prefix @ '': '' @ content msg @ ''\<newline>'')"

definition get_conversation_history :: "ConversationMemory \<Rightarrow> string" where
  "get_conversation_history m = foldl history_step '''' (messages m)"

definition set_context ::
  "string \<Rightarrow> (string \<rightharpoonup> string) \<Rightarrow> ConversationMemory \<Rightarrow> ConversationMemory" where
  "set_context key data m = m\<lparr>context' := (context' m)(key \<mapsto> data)\<rparr>"

definition get_context ::
  "ConversationMemory \<Rightarrow> string \<Rightarrow> (string \<rightharpoonup> string) \<Rightarrow> (string \<rightharpoonup> string)" where
  "get_context m key dflt = (case context' m key of None \<Rightarrow> dflt | Some d \<Rightarrow> d)"

text \<open>\<open>dict.get(key, default)\<close> on a profile or knowledge dictionary.\<close>

definition dict_get :: "(string \<rightharpoonup> string) \<Rightarrow> string \<Rightarrow> string \<Rightarrow> string" where
  "dict_get d key dflt = (case d key of None \<Rightarrow> dflt | Some v \<Rightarrow> v)"

section \<open>The prompt templates\<close>

text \<open>
  The nine triple-quoted literals of \<open>_get_prompt_template\<close>, line by line: each begins
  with a newline and ends with the sixteen spaces before the closing quotes.
\<close>

definition demo_greeting :: string where
  "demo_greeting = concat
    [''\<newline>'',
     ''                You are an AI assistant conducting a cold call in Hinglish (mix of Hindi and English).\<newline>'',
     ''                \<newline>'',
     ''                You're a sales representative for an ERP software company.\<newline>'',
     ''                Your goal is to schedule a product demo.\<newline>'',
     ''                \<newline>'',
     ''                Customer profile:\<newline>'',
     ''                Name: {name}\<newline>'',
     ''                Company: {company}\<newline>'',
     ''                Role: {role}\<newline>'',
     ''                Interest area: {interest_area}\<newline>'',
     ''                Company size: {company_size}\<newline>'',
     ''                \<newline>'',
     ''                Start with a friendly greeting in Hinglish.\<newline>'',
     ''                Introduce yourself, mention your company, and state the purpose of your call.\<newline>'',
     ''                Keep your response concise (2-3 sentences) and end with an open question.\<newline>'',
     ''                '']"

definition demo_conversation :: string where
  "demo_conversation = concat
    [''\<newline>'',
     ''                You are an AI assistant conducting a cold call in Hinglish (mix of Hindi and English).\<newline>'',
     ''                \<newline>'',
     ''                You're a sales representative for an ERP software company.\<newline>'',
     ''                Your goal is to schedule a product demo.\<newline>'',
     ''                Highlight benefits relevant to the customer's interests.\<newline>'',
     ''                Try to get a specific date and time for the demo.\<newline>'',
     ''                \<newline>'',
     ''                Customer profile:\<newline>'',
     ''                Name: {name}\<newline>'',
     ''                Company: {company}\<newline>'',
     ''                Role: {role}\<newline>'',
     ''                Interest area: {interest_area}\<newline>'',
     ''                Company size: {company_size}\<newline>'',
     ''                \<newline>'',
     ''                Conversation history:\<newline>'',
     ''                {conversation_history}\<newline>'',
     ''                \<newline>'',
     ''                Customer's most recent message: {user_input}\<newline>'',
     ''                \<newline>'',
     ''                Respond in Hinglish with a friendly, professional tone.\<newline>'',
     ''                Address customer concerns empathetically and move the conversation toward scheduling a demo.\<newline>'',
     ''                Keep your response concise (2-4 sentences).\<newline>'',
     ''                '']"

definition demo_farewell :: string where
  "demo_farewell = concat
    [''\<newline>'',
     ''                You are an AI assistant concluding a cold call in Hinglish (mix of Hindi and English).\<newline>'',
     ''                \<newline>'',
     ''                You're a sales representative for an ERP software company.\<newline>'',
     ''                \<newline>'',
     ''                Customer profile:\<newline>'',
     ''                Name: {name}\<newline>'',
     ''                Company: {company}\<newline>'',
     ''                \<newline>'',
     ''                Conversation history:\<newline>'',
     ''                {conversation_history}\<newline>'',
     ''                \<newline>'',
     ''                Create a polite and warm closing statement in Hinglish that:\<newline>'',
     ''                1. Thanks the customer for their time\<newline>'',
     ''                2. Summarizes any demo scheduling details\<newline>'',
     ''                3. Mentions that you'll send a confirmation email\<newline>'',
     ''                4. Ends on a positive note\<newline>'',
     ''                \<newline>'',
     ''                Keep your response concise (2-3 sentences).\<newline>'',
     ''                '']"

definition interview_greeting :: string where
  "interview_greeting = concat
    [''\<newline>'',
     ''                You are an AI assistant conducting an interview in Hinglish (mix of Hindi and English).\<newline>'',
     ''                \<newline>'',
     ''                You're an HR representative conducting an initial screening interview.\<newline>'',
     ''                Your goal is to assess the candidate's fit for the position.\<newline>'',
     ''                \<newline>'',
     ''                Candidate profile:\<newline>'',
     ''                Name: {name}\<newline>'',
     ''                Experience: {experience}\<newline>'',
     ''                Current role: {current_role}\<newline>'',
     ''                Applied for: {applied_for}\<newline>'',
     ''                \<newline>'',
     ''                Position details:\<newline>'',
     ''                Position: {position}\<newline>'',
     ''                Skills required: {skills}\<newline>'',
     ''                Experience required: {experience_required}\<newline>'',
     ''                Company domain: {company_domain}\<newline>'',
     ''                \<newline>'',
     ''                Start with a friendly greeting in Hinglish.\<newline>'',
     ''                Introduce yourself, mention your company, and explain the interview process.\<newline>'',
     ''                Keep your response concise (2-3 sentences) and end with an open question about their background.\<newline>'',
     ''                '']"

definition interview_conversation :: string where
  "interview_conversation = concat
    [''\<newline>'',
     ''                You are an AI assistant conducting an interview in Hinglish (mix of Hindi and English).\<newline>'',
     ''                \<newline>'',
     ''                You're an HR representative conducting an initial screening interview.\<newline>'',
     ''                Your goal is to assess the candidate's fit for the position.\<newline>'',
     ''                Ask about relevant skills, experiences, and interest in the role.\<newline>'',
     ''                Evaluate communication skills and cultural fit.\<newline>'',
     ''                \<newline>'',
     ''                Candidate profile:\<newline>'',
     ''                Name: {name}\<newline>'',
     ''                Experience: {experience}\<newline>'',
     ''                Current role: {current_role}\<newline>'',
     ''                Applied for: {applied_for}\<newline>'',
     ''                \<newline>'',
     ''                Position details:\<newline>'',
     ''                Position: {position}\<newline>'',
     ''                Skills required: {skills}\<newline>'',
     ''                Experience required: {experience_required}\<newline>'',
     ''                Company domain: {company_domain}\<newline>'',
     ''                \<newline>'',
     ''                Interview history:\<newline>'',
     ''                {conversation_history}\<newline>'',
     ''                \<newline>'',
     ''                Candidate's most recent response: {user_input}\<newline>'',
     ''                \<newline>'',
     ''                Respond in Hinglish with a professional tone.\<newline>'',
     ''                Ask follow-up questions that help assess the candidate's suitability.\<newline>'',
     ''                Keep your response concise (2-3 sentences).\<newline>'',
     ''                '']"

definition interview_farewell :: string where
  "interview_farewell = concat
    [''\<newline>'',
     ''                You are an AI assistant concluding an interview in Hinglish (mix of Hindi and English).\<newline>'',
     ''                \<newline>'',
     ''                You're an HR representative who has just completed an initial screening interview.\<newline>'',
     ''                \<newline>'',
     ''                Candidate profile:\<newline>'',
     ''                Name: {name}\<newline>'',
     ''                Applied for: {applied_for}\<newline>'',
     ''                \<newline>'',
     ''                Interview history:\<newline>'',
     ''                {conversation_history}\<newline>'',
     ''                \<newline>'',
     ''                Create a polite and professional closing statement in Hinglish that:\<newline>'',
     ''                1. Thanks the candidate for their time\<newline>'',
     ''                2. Explains the next steps in the interview process\<newline>'',
     ''                3. Mentions when they can expect to hear back\<newline>'',
     ''                4. Ends on an encouraging note\<newline>'',
     ''                \<newline>'',
     ''                Keep your response concise (2-3 sentences).\<newline>'',
     ''                '']"

definition payment_greeting :: string where
  "payment_greeting = concat
    [''\<newline>'',
     ''                You are an AI assistant conducting a payment follow-up call in Hinglish (mix of Hindi and English).\<newline>'',
     ''                \<newline>'',
     ''                You're from the accounts department following up on an overdue payment.\<newline>'',
     ''                Your goal is to secure a commitment for payment.\<newline>'',
     ''                \<newline>'',
     ''                Customer profile:\<newline>'',
     ''                Name: {name}\<newline>'',
     ''                Company: {company}\<newline>'',
     ''                Role: {role}\<newline>'',
     ''                \<newline>'',
     ''                Invoice details:\<newline>'',
     ''                Invoice number: {invoice_number}\<newline>'',
     ''                Due amount: {due_amount}\<newline>'',
     ''                Days late: {days_late}\<newline>'',
     ''                Payment history: {payment_history}\<newline>'',
     ''                \<newline>'',
     ''                Start with a polite greeting in Hinglish.\<newline>'',
     ''                Introduce yourself, mention your company's accounts department, and state the purpose of your call.\<newline>'',
     ''                Keep your response concise (2-3 sentences) and be respectful but direct about the overdue payment.\<newline>'',
     ''                '']"

definition payment_conversation :: string where
  "payment_conversation = concat
    [''\<newline>'',
     ''                You are an AI assistant conducting a payment follow-up call in Hinglish (mix of Hindi and English).\<newline>'',
     ''                \<newline>'',
     ''                You're from the accounts department following up on an overdue payment.\<newline>'',
     ''                Your goal is to secure a commitment for payment.\<newline>'',
     ''                Be polite but firm about the urgency.\<newline>'',
     ''                Try to get a specific date for when the payment will be made.\<newline>'',
     ''                \<newline>'',
     ''                Customer profile:\<newline>'',
     ''                Name: {name}\<newline>'',
     ''                Company: {company}\<newline>'',
     ''                Role: {role}\<newline>'',
     ''                \<newline>'',
     ''                Invoice details:\<newline>'',
     ''                Invoice number: {invoice_number}\<newline>'',
     ''                Due amount: {due_amount}\<newline>'',
     ''                Days late: {days_late}\<newline>'',
     ''                Payment history: {payment_history}\<newline>'',
     ''                \<newline>'',
     ''                Conversation history:\<newline>'',
     ''                {conversation_history}\<newline>'',
     ''                \<newline>'',
     ''                Customer's most recent message: {user_input}\<newline>'',
     ''                \<newline>'',
     ''                Respond in Hinglish with a professional tone.\<newline>'',
     ''                Be understanding but firm about the need for payment.\<newline>'',
     ''                Keep your response concise (2-3 sentences).\<newline>'',
     ''                '']"

definition payment_farewell :: string where
  "payment_farewell = concat
    [''\<newline>'',
     ''                You are an AI assistant concluding a payment follow-up call in Hinglish (mix of Hindi and English).\<newline>'',
     ''                \<newline>'',
     ''                You're from the accounts department following up on an overdue payment.\<newline>'',
     ''                \<newline>'',
     ''                Customer profile:\<newline>'',
     ''                Name: {name}\<newline>'',
     ''                Company: {company}\<newline>'',
     ''                \<newline>'',
     ''                Invoice details:\<newline>'',
     ''                Invoice number: {invoice_number}\<newline>'',
     ''                Due amount: {due_amount}\<newline>'',
     ''                \<newline>'',
     ''                Conversation history:\<newline>'',
     ''                {conversation_history}\<newline>'',
     ''                \<newline>'',
     ''                Create a polite and professional closing statement in Hinglish that:\<newline>'',
     ''                1. Thanks the customer for their time\<newline>'',
     ''                2. Summarizes any payment commitments made\<newline>'',
     ''                3. Confirms any next steps\<newline>'',
     ''                4. Ends on a positive note\<newline>'',
     ''                \<newline>'',
     ''                Keep your response concise (2-3 sentences).\<newline>'',
     ''                '']"

definition templates :: "(string \<times> (string \<times> string) list) list" where
  "templates =
     [(''demo'',
         [(''greeting'', demo_greeting),
          (''conversation'', demo_conversation),
          (''farewell'', demo_farewell)]),
      (''interview'',
         [(''greeting'', interview_greeting),
          (''conversation'', interview_conversation),
          (''farewell'', interview_farewell)]),
      (''payment'',
         [(''greeting'', payment_greeting),
          (''conversation'', payment_conversation),
          (''farewell'', payment_farewell)])]"

section \<open>str.format\<close>

text \<open>
  \<open>template.format(**kwargs)\<close>, read left to right as CPython does (a 64-bit build of
  version 3): \<open>{{\<close> and \<open>}}\<close> are the escaped braces, a single \<open>}\<close> or an unclosed \<open>{\<close>
  raises \<open>ValueError\<close>. A replacement field is first parsed, which raises \<open>ValueError\<close>
  when it is malformed; then the first part of its name is looked up. The call passes no
  positional argument, so an empty name or a number raises \<open>IndexError\<close> (\<open>ValueError\<close>
  when the number is beyond the largest index); any other name is looked up among the
  keyword arguments and raises \<open>KeyError\<close> when it is not there. The value found for a
  field that is only a name is written out; what is done with it in a field that has an
  attribute, an index, a conversion or a format specification is not modelled. The first
  failure ends the formatting. A digit is an ASCII digit: the decimal digits of other
  scripts, which CPython reads as a number too, are taken as part of a keyword; the
  lookup fails either way.
\<close>

fun take_field :: "string \<Rightarrow> (string \<times> string) option" where
  "take_field [] = None"
| "take_field (c # cs) =
     (if c = CHR ''}'' then Some ([], cs)
      else (case take_field cs of
              None \<Rightarrow> None
            | Some (name, rest) \<Rightarrow> Some (c # name, rest)))"

lemma take_field_shorter: "take_field cs = Some (name, rest) \<Longrightarrow> length rest < length cs"
  by (induction cs arbitrary: name rest) (auto split: if_splits option.splits)

text \<open>
  CPython's \<open>parse_field\<close>, on the text after the opening brace. The name of the field ends
  at the first \<open>}\<close>, \<open>:\<close> or \<open>!\<close> that is not inside an index; a \<open>{\<close> before that is an
  error. The result is the character that ended the name and the text after it.
\<close>

function scan_field_name :: "string \<Rightarrow> (char \<times> string) option" where
  "scan_field_name [] = None"
| "scan_field_name (c # cs) =
     (if c = CHR ''{'' then None
      else if c = CHR ''['' then scan_field_name (dropWhile (\<lambda>x. x \<noteq> CHR '']'') cs)
      else if c = CHR ''}'' \<or> c = CHR '':'' \<or> c = CHR ''!'' then Some (c, cs)
      else scan_field_name cs)"
  by pat_completeness auto
termination
  by (relation "measure length") (auto simp: less_Suc_eq_le length_dropWhile_le)

text \<open>
  The format specification runs to the brace that closes the field, the braces of the
  fields nested in it counted; the result is the text after the field.
\<close>

fun scan_spec :: "nat \<Rightarrow> string \<Rightarrow> string option" where
  "scan_spec count [] = None"
| "scan_spec count (c # cs) =
     (if c = CHR ''{'' then scan_spec (Suc count) cs
      else if c = CHR ''}'' then (if count \<le> 1 then Some cs else scan_spec (count - 1) cs)
      else scan_spec count cs)"

definition parse_field :: "string \<Rightarrow> string option" where
  "parse_field s =
     (case scan_field_name s of
        None \<Rightarrow> None
      | Some (c, cs) \<Rightarrow>
          if c = CHR ''}'' then Some cs
          else if c = CHR ''!'' then
            (case cs of
               [] \<Rightarrow> None
             | conversion # cs1 \<Rightarrow>
                 (case cs1 of
                    [] \<Rightarrow> None
                  | c2 # cs2 \<Rightarrow>
                      if c2 = CHR ''}'' then Some cs2
                      else if c2 \<noteq> CHR '':'' then None
                      else scan_spec 1 cs2))
          else scan_spec 1 cs)"

text \<open>\<open>PY_SSIZE_T_MAX\<close>, and the number that a string of digits writes.\<close>

definition ssize_t_max :: int where
  "ssize_t_max = 9223372036854775807"

fun digits_value :: "int \<Rightarrow> string \<Rightarrow> int" where
  "digits_value acc [] = acc"
| "digits_value acc (c # cs) = digits_value (acc * 10 + (of_char c - 48)) cs"

text \<open>The lookup of the first part of a field's name, with no positional argument.\<close>

definition lookup_arg :: "(string \<rightharpoonup> string) \<Rightarrow> string \<Rightarrow> exn + string" where
  "lookup_arg kwargs arg =
     (if list_all is_digit arg then
        (if ssize_t_max < digits_value 0 arg then Inl ValueError else Inl IndexError)
      else (case kwargs arg of None \<Rightarrow> Inl (KeyError arg) | Some v \<Rightarrow> Inr v))"

text \<open>
  One replacement field: \<open>cs\<close> is the text after its opening brace and \<open>field\<close> is that text
  up to the first closing brace.
\<close>

definition format_field :: "(string \<rightharpoonup> string) \<Rightarrow> string \<Rightarrow> string \<Rightarrow> exn + string" where
  "format_field kwargs cs field =
     (if list_ex (\<lambda>x. x \<in> set ''.[!:{'') field then
        (if parse_field cs = None then Inl ValueError
         else (case lookup_arg kwargs (takeWhile (\<lambda>x. x \<notin> set ''.[!:{'') field) of
                 Inl e \<Rightarrow> Inl e
               | Inr v \<Rightarrow> Inl Unmodelled))
      else lookup_arg kwargs field)"

definition emit :: "string \<Rightarrow> exn + string \<Rightarrow> exn + string" where
  "emit s r = (case r of Inl e \<Rightarrow> Inl e | Inr out \<Rightarrow> Inr (s @ out))"

function str_format :: "(string \<rightharpoonup> string) \<Rightarrow> string \<Rightarrow> exn + string" where
  "str_format kwargs [] = Inr []"
| "str_format kwargs (c # cs) =
     (if c = CHR ''{'' then
        (case cs of
           [] \<Rightarrow> Inl ValueError
         | d # ds \<Rightarrow>
             if d = CHR ''{'' then emit ''{'' (str_format kwargs ds)
             else (case take_field cs of
                     None \<Rightarrow> Inl ValueError
                   | Some (field, rest) \<Rightarrow>
                       (case format_field kwargs cs field of
                          Inl e \<Rightarrow> Inl e
                        | Inr v \<Rightarrow> emit v (str_format kwargs rest))))
      else if c = CHR ''}'' then
        (case cs of
           [] \<Rightarrow> Inl ValueError
         | d # ds \<Rightarrow> if d = CHR ''}'' then emit ''}'' (str_format kwargs ds) else Inl ValueError)
      else emit [c] (str_format kwargs cs))"
  by pat_completeness auto
termination
  by (relation "measure (\<lambda>(kwargs, s). length s)")
     (auto dest!: take_field_shorter simp del: take_field.simps)

section \<open>The outside world\<close>

text \<open>
  The agent reaches three services: the generation backend (\<open>self.model\<close>), the
  microphone with its recogniser, and the loudspeaker. The backend maps a prompt to the
  text of its response or to the exception it raises. \<open>speak\<close> catches every synthesis
  and playback error itself; an exception can leave it only from the cleanup of its
  \<open>finally\<close> block, and \<open>playback\<close> gives that exception, if any, for the text spoken.
  What successive calls of \<open>recognize_speech\<close> meet is a script, one entry a call: a
  transcription, one of the three errors the method catches, or another exception
  (opening the microphone and the calibration for ambient noise are outside its
  \<open>try\<close>). The \<open>trace\<close> of an agent records each call it makes to a service, and what
  \<open>start_call\<close> and \<open>end_call\<close> print, in order.
\<close>

record services =
  generate_content :: "string \<Rightarrow> exn + string"
  playback :: "string \<Rightarrow> exn option"

datatype heard =
  Recognized string | UnknownValueError | RequestError | WaitTimeoutError | MicFailure exn

datatype io = Listen | Generate string | Speak string | Report exn | Ended

section \<open>GeminiAgent\<close>

record GeminiAgent =
  scenario :: string
  memory :: ConversationMemory
  running :: bool
  trace :: "io list"

definition log_io :: "io \<Rightarrow> GeminiAgent \<Rightarrow> GeminiAgent" where
  "log_io x a = a\<lparr>trace := trace a @ [x]\<rparr>"

definition recognize_speech :: "heard \<Rightarrow> GeminiAgent \<Rightarrow> (exn + string) \<times> GeminiAgent" where
  "recognize_speech ev a =
     (case ev of
        Recognized text \<Rightarrow> (Inr (lower text), log_io Listen a)
      | UnknownValueError \<Rightarrow> (Inr '''', log_io Listen a)
      | RequestError \<Rightarrow> (Inr '''', log_io Listen a)
      | WaitTimeoutError \<Rightarrow> (Inr '''', log_io Listen a)
      | MicFailure e \<Rightarrow> (Inl e, log_io Listen a))"

definition speak :: "services \<Rightarrow> string \<Rightarrow> GeminiAgent \<Rightarrow> exn option \<times> GeminiAgent" where
  "speak sv text a = (playback sv text, log_io (Speak text) a)"

definition load_scenario_data :: "GeminiAgent \<Rightarrow> GeminiAgent" where
  "load_scenario_data a =
     (if scenario a = ''demo'' then
        a\<lparr>memory := set_context ''profile'' (map_of
             [(''name'', ''Ansh Aggarwal''),
              (''company'', ''Tech Solutions Ltd''),
              (''role'', ''IT Manager''),
              (''interest_area'', ''Inventory Management and HR modules''),
              (''company_size'', ''150 employees'')]) (memory a)\<rparr>
      else if scenario a = ''interview'' then
        a\<lparr>memory := set_context ''knowledge'' (map_of
             [(''position'', ''Software Engineer''),
              (''skills'', ''Python, React, SQL, Cloud platforms''),
              (''experience_required'', ''2-5 years''),
              (''company_domain'', ''FinTech'')])
           (set_context ''profile'' (map_of
             [(''name'', ''Ansh Aggarwal''),
              (''experience'', ''3 years''),
              (''current_role'', ''Junior Developer''),
              (''applied_for'', ''Software Engineer'')]) (memory a))\<rparr>
      else if scenario a = ''payment'' then
        a\<lparr>memory := set_context ''knowledge'' (map_of
             [(''invoice_number'', ''INV-2024-1075''),
              (''due_amount'', [CHR 0xE2, CHR 0x82, CHR 0xB9] @ ''4,85,000''),
              (''days_late'', ''45''),
              (''payment_history'', ''Generally good, but occasional delays'')])
           (set_context ''profile'' (map_of
             [(''name'', ''Customer''),
              (''company'', ''Global Enterprises''),
              (''role'', ''Procurement Manager'')]) (memory a))\<rparr>
      else a)"

text \<open>The constructor \<open>__init__\<close>.\<close>

definition new_agent :: "string \<Rightarrow> GeminiAgent" where
  "new_agent sc =
     load_scenario_data \<lparr>scenario = sc, memory = new_memory, running = False, trace = []\<rparr>"

text \<open>\<open>templates.get(self.scenario, {}).get(phase, "")\<close>\<close>

definition get_prompt_template :: "GeminiAgent \<Rightarrow> string \<Rightarrow> string" where
  "get_prompt_template a phase =
     (case map_of (case map_of templates (scenario a) of None \<Rightarrow> [] | Some d \<Rightarrow> d) phase of
        None \<Rightarrow> ''''
      | Some t \<Rightarrow> t)"

text \<open>The keyword arguments of the call \<open>template.format(...)\<close> in \<open>_format_prompt\<close>.\<close>

definition format_kwargs :: "GeminiAgent \<Rightarrow> string \<Rightarrow> (string \<rightharpoonup> string)" where
  "format_kwargs a user_input =
     (let profile = get_context (memory a) ''profile'' Map.empty;
          knowledge = get_context (memory a) ''knowledge'' Map.empty
      in map_of
           [(''name'', dict_get profile ''name'' ''''),
            (''company'', dict_get profile ''company'' ''''),
            (''role'', dict_get profile ''role'' ''''),
            (''interest_area'', dict_get profile ''interest_area'' ''''),
            (''company_size'', dict_get profile ''company_size'' ''''),
            (''experience'', dict_get profile ''experience'' ''''),
            (''current_role'', dict_get profile ''current_role'' ''''),
            (''applied_for'', dict_get profile ''applied_for'' ''''),
            (''position'', dict_get knowledge ''position'' ''''),
            (''skills'', dict_get knowledge ''skills'' ''''),
            (''experience_required'', dict_get knowledge ''experience_required'' ''''),
            (''company_domain'', dict_get knowledge ''company_domain'' ''''),
            (''invoice_number'', dict_get knowledge ''invoice_number'' ''''),
            (''due_amount'', dict_get knowledge ''due_amount'' ''''),
            (''days_late'', dict_get knowledge ''days_late'' ''''),
            (''payment_history'', dict_get knowledge ''payment_history'' ''''),
            (''conversation_history'', get_conversation_history (memory a)),
            (''user_input'', user_input)])"

definition format_prompt :: "GeminiAgent \<Rightarrow> string \<Rightarrow> string \<Rightarrow> exn + string" where
  "format_prompt a template user_input = str_format (format_kwargs a user_input) template"

definition fallback :: string where
  "fallback = ''Sorry, I'm having trouble generating a response. Let me try again.''"

definition generate_response :: "services \<Rightarrow> string \<Rightarrow> GeminiAgent \<Rightarrow> string \<times> GeminiAgent" where
  "generate_response sv prompt a =
     (case generate_content sv prompt of
        Inr result \<Rightarrow> (result, log_io (Generate prompt) a)
      | Inl e \<Rightarrow> (fallback, log_io (Generate prompt) a))"

definition run_greeting_chain :: "services \<Rightarrow> GeminiAgent \<Rightarrow> (exn + string) \<times> GeminiAgent" where
  "run_greeting_chain sv a =
     (let template = get_prompt_template a ''greeting'' in
      case format_prompt a template '''' of
        Inl e \<Rightarrow> (Inl e, a)
      | Inr prompt \<Rightarrow>
          (let (result, a1) = generate_response sv prompt a
           in (Inr result, a1\<lparr>memory := add_agent_message result (memory a1)\<rparr>)))"

definition run_conversation_chain ::
  "services \<Rightarrow> string \<Rightarrow> GeminiAgent \<Rightarrow> (exn + string) \<times> GeminiAgent" where
  "run_conversation_chain sv user_input a =
     (let a1 = a\<lparr>memory := add_user_message user_input (memory a)\<rparr>;
          template = get_prompt_template a1 ''conversation'' in
      case format_prompt a1 template user_input of
        Inl e \<Rightarrow> (Inl e, a1)
      | Inr prompt \<Rightarrow>
          (let (result, a2) = generate_response sv prompt a1
           in (Inr result, a2\<lparr>memory := add_agent_message result (memory a2)\<rparr>)))"

definition run_farewell_chain :: "services \<Rightarrow> GeminiAgent \<Rightarrow> (exn + string) \<times> GeminiAgent" where
  "run_farewell_chain sv a =
     (let template = get_prompt_template a ''farewell'' in
      case format_prompt a template '''' of
        Inl e \<Rightarrow> (Inl e, a)
      | Inr prompt \<Rightarrow>
          (let (result, a1) = generate_response sv prompt a
           in (Inr result, a1\<lparr>memory := add_agent_message result (memory a1)\<rparr>)))"

definition exit_commands :: "string list" where
  "exit_commands = [''bye'', ''goodbye'', ''end call'', ''quit'', ''exit'', ''bye-bye'']"

text \<open>
  The \<open>while self.running\<close> loop of \<open>start_call\<close>. The result is \<open>None\<close> when the script
  ends while the loop still listens; otherwise it is the exception that left the loop, or
  none after a \<open>break\<close>, with the agent as it then is.
\<close>

fun conversation_loop ::
  "services \<Rightarrow> heard list \<Rightarrow> GeminiAgent \<Rightarrow> (exn option \<times> GeminiAgent) option" where
  "conversation_loop sv [] a = (if running a then None else Some (None, a))"
| "conversation_loop sv (ev # evs) a =
     (if running a then
        (case recognize_speech ev a of
           (Inl e, a1) \<Rightarrow> Some (Some e, a1)
         | (Inr user_input, a1) \<Rightarrow>
             if lower user_input \<in> set exit_commands then Some (None, a1)
             else if user_input \<noteq> [] then
               (case run_conversation_chain sv user_input a1 of
                  (Inl e, a2) \<Rightarrow> Some (Some e, a2)
                | (Inr response, a2) \<Rightarrow>
                    (case speak sv response a2 of
                       (Some e, a3) \<Rightarrow> Some (Some e, a3)
                     | (None, a3) \<Rightarrow> conversation_loop sv evs a3))
             else conversation_loop sv evs a1)
      else Some (None, a))"

definition end_call :: "GeminiAgent \<Rightarrow> GeminiAgent" where
  "end_call a = log_io Ended (a\<lparr>running := False\<rparr>)"

text \<open>The body of the \<open>try\<close> block of \<open>start_call\<close>.\<close>

definition call_body ::
  "services \<Rightarrow> heard list \<Rightarrow> GeminiAgent \<Rightarrow> (exn option \<times> GeminiAgent) option" where
  "call_body sv script a =
     (case run_greeting_chain sv a of
        (Inl e, a1) \<Rightarrow> Some (Some e, a1)
      | (Inr greeting, a1) \<Rightarrow>
          (case speak sv greeting a1 of
             (Some e, a2) \<Rightarrow> Some (Some e, a2)
           | (None, a2) \<Rightarrow>
               (case conversation_loop sv script a2 of
                  None \<Rightarrow> None
                | Some (Some e, a3) \<Rightarrow> Some (Some e, a3)
                | Some (None, a3) \<Rightarrow>
                    (case run_farewell_chain sv a3 of
                       (Inl e, a4) \<Rightarrow> Some (Some e, a4)
                     | (Inr farewell, a4) \<Rightarrow> Some (speak sv farewell a4)))))"

text \<open>
  \<open>start_call\<close>: the \<open>except Exception\<close> clause reports the exception and swallows it, the
  \<open>finally\<close> clause calls \<open>end_call\<close>.
\<close>

definition start_call :: "services \<Rightarrow> heard list \<Rightarrow> GeminiAgent \<Rightarrow> GeminiAgent option" where
  "start_call sv script a =
     (case call_body sv script (a\<lparr>running := True\<rparr>) of
        None \<Rightarrow> None
      | Some (Some e, a1) \<Rightarrow> Some (end_call (log_io (Report e) a1))
      | Some (None, a1) \<Rightarrow> Some (end_call a1))"

section \<open>The call, with str.lower as a parameter\<close>





section \<open>Notions used in the statements\<close>

text \<open>
  The names of the keyword arguments of \<open>_format_prompt\<close>: those read from the profile,
  those read from the knowledge, and the two that are not read from the context.
\<close>

definition profile_placeholders :: "string list" where
  "profile_placeholders =
     [''name'', ''company'', ''role'', ''interest_area'', ''company_size'', ''experience'',
      ''current_role'', ''applied_for'']"

definition knowledge_placeholders :: "string list" where
  "knowledge_placeholders =
     [''position'', ''skills'', ''experience_required'', ''company_domain'', ''invoice_number'',
      ''due_amount'', ''days_late'', ''payment_history'']"

definition placeholders :: "string list" where
  "placeholders =
     profile_placeholders @ knowledge_placeholders @ [''conversation_history'', ''user_input'']"

text \<open>The same keywords, each bound to the empty string.\<close>

definition blank_kwargs :: "string \<rightharpoonup> string" where
  "blank_kwargs = map_of (map (\<lambda>k. (k, '''')) placeholders)"

definition formats :: "string \<Rightarrow> bool" where
  "formats t = (\<not> isl (str_format blank_kwargs t))"

text \<open>
  A placeholder name that is a plain keyword: none of the characters with which
  \<open>str.format\<close> starts an attribute, an index, a conversion or a format specification,
  and no brace.
\<close>

definition plain_name :: "string \<Rightarrow> bool" where
  "plain_name n = (\<not> list_ex (\<lambda>x. x \<in> set ''.[!:{}'') n)"

text \<open>
  What follows the name of a placeholder in a template: the closing brace, or the start of
  a conversion, a format specification, an attribute or an index.
\<close>

definition ends_name :: "string \<Rightarrow> bool" where
  "ends_name tail = (case tail of [] \<Rightarrow> False | c # cs \<Rightarrow> c \<in> set ''}!:.['')"

text \<open>The templates of the catalog, whatever their scenario and phase.\<close>

definition catalog :: "string list" where
  "catalog = concat (map (\<lambda>(sc, phases). map snd phases) templates)"

text \<open>One line of the rendered history, without its newline.\<close>

definition render_line :: "message \<Rightarrow> string" where
  "render_line msg = (if role msg = ''user'' then ''Customer'' else ''AI'') @ '': '' @ content msg"

text \<open>The lines of a text, as \<open>str.splitlines\<close> gives them for the newline character.\<close>

fun splitlines :: "string \<Rightarrow> string list" where
  "splitlines [] = []"
| "splitlines (c # cs) =
     (if c = CHR ''\<newline>'' then [] # splitlines cs
      else (case splitlines cs of [] \<Rightarrow> [[c]] | l # ls \<Rightarrow> (c # l) # ls))"

text \<open>
  An entry of the script at which the loop ends: an utterance that is an exit command, or
  an exception that \<open>recognize_speech\<close> does not catch.
\<close>

fun stops :: "heard \<Rightarrow> bool" where
  "stops (Recognized text) = (lower (lower text) \<in> set exit_commands)"
| "stops (MicFailure e) = True"
| "stops ev = False"



text \<open>What \<open>generate_response\<close> returns for a prompt: the text of the backend, or the apology.\<close>

definition reply :: "services \<Rightarrow> string \<Rightarrow> string" where
  "reply sv prompt = (case generate_content sv prompt of Inr text \<Rightarrow> text | Inl e \<Rightarrow> fallback)"

text \<open>Two sets of services for concrete calls: one that always works, one whose backend is down.\<close>

definition working_services :: services where
  "working_services =
     \<lparr>generate_content = (\<lambda>prompt. Inr ''Namaste''), playback = (\<lambda>text. None)\<rparr>"

definition failing_backend :: services where
  "failing_backend =
     \<lparr>generate_content = (\<lambda>prompt. Inl (Error ''503'')), playback = (\<lambda>text. None)\<rparr>"

section \<open>Text: lemmas\<close>

lemma lower_char_idem: "lower_char (lower_char c) = lower_char c"
  by (simp add: lower_char_def Let_def)

lemma lower_idem: "lower (lower s) = lower s"
  by (simp add: lower_def lower_char_idem)



lemma exit_commands_lower: "list_all (\<lambda>p. lower p = p) exit_commands"
  by code_simp

lemma lower_exit_commands: "p \<in> set exit_commands \<Longrightarrow> lower p = p"
  using exit_commands_lower by (simp add: list_all_iff)

lemma exit_iff_ignoring_case:
  "(lower s \<in> set exit_commands) = list_ex (equal_ignoring_case s) exit_commands"
proof
  assume "lower s \<in> set exit_commands"
  then have "equal_ignoring_case s (lower s)" "lower s \<in> set exit_commands"
    by (simp_all add: equal_ignoring_case_def lower_idem)
  then show "list_ex (equal_ignoring_case s) exit_commands"
    unfolding list_ex_iff by blast
next
  assume "list_ex (equal_ignoring_case s) exit_commands"
  then obtain p where p: "p \<in> set exit_commands" "lower s = lower p"
    unfolding list_ex_iff equal_ignoring_case_def by blast
  with lower_exit_commands[OF p(1)] show "lower s \<in> set exit_commands"
    by simp
qed

section \<open>The history: lemmas\<close>

lemma foldl_history_step:
  "foldl history_step h ms = h @ concat (map (\<lambda>msg. render_line msg @ ''\<newline>'') ms)"
  by (induction ms arbitrary: h) (simp_all add: history_step_def render_line_def)

lemma splitlines_line:
  "CHR ''\<newline>'' \<notin> set l \<Longrightarrow> splitlines (l @ CHR ''\<newline>'' # rest) = l # splitlines rest"
  by (induction l) auto

lemma splitlines_rendered:
  "list_all (\<lambda>msg. CHR ''\<newline>'' \<notin> set (content msg)) ms \<Longrightarrow>
   splitlines (concat (map (\<lambda>msg. render_line msg @ ''\<newline>'') ms)) = map render_line ms"
proof (induction ms)
  case Nil
  then show ?case by simp
next
  case (Cons m ms)
  have "CHR ''\<newline>'' \<notin> set (render_line m)"
    using Cons.prems by (simp add: render_line_def)
  then show ?case
    using Cons by (simp add: splitlines_line)
qed

section \<open>str.format: lemmas\<close>

lemma isl_emit: "isl (emit s r) = isl r"
  by (cases r) (simp_all add: emit_def)

lemma emit_Inr: "emit s (Inr out) = Inr (s @ out)"
  by (simp add: emit_def)

lemma emit_Inl: "emit s (Inl e) = Inl e"
  by (simp add: emit_def)

lemma emit_emit: "emit s (emit t r) = emit (s @ t) r"
  by (cases r) (simp_all add: emit_def)

lemma emit_Nil: "emit [] r = r"
  by (cases r) (simp_all add: emit_def)

lemma emit_eq_Inr: "(emit s r = Inr out) = (\<exists>t. r = Inr t \<and> out = s @ t)"
  by (cases r) (auto simp: emit_def)

lemma lookup_arg_same_keys:
  "\<forall>k. (kw k = None) = (kw' k = None) \<Longrightarrow> isl (lookup_arg kw arg) = isl (lookup_arg kw' arg)"
proof -
  assume "\<forall>k. (kw k = None) = (kw' k = None)"
  then have "(kw arg = None) = (kw' arg = None)" by simp
  then show ?thesis
    by (cases "kw arg"; cases "kw' arg") (simp_all add: lookup_arg_def)
qed

lemma format_field_same_keys:
  assumes "\<forall>k. (kw k = None) = (kw' k = None)"
  shows "isl (format_field kw cs field) = isl (format_field kw' cs field)"
proof (cases "list_ex (\<lambda>x. x \<in> set ''.[!:{'') field")
  case True
  then show ?thesis
    by (simp add: format_field_def split: sum.splits)
next
  case False
  then show ?thesis
    using lookup_arg_same_keys[OF assms] by (simp add: format_field_def)
qed

lemma str_format_same_keys:
  "\<forall>k. (kw k = None) = (kw' k = None) \<Longrightarrow> isl (str_format kw t) = isl (str_format kw' t)"
proof (induction kw t rule: str_format.induct)
  case (1 kwargs)
  then show ?case by simp
next
  case (2 kwargs c cs)
  note same = "2.prems"
  show ?case
  proof (cases "c = CHR ''{''")
    case lb: True
    show ?thesis
    proof (cases cs)
      case Nil
      with lb show ?thesis by simp
    next
      case (Cons d ds)
      show ?thesis
      proof (cases "d = CHR ''{''")
        case True
        with lb Cons "2.IH"(1)[OF lb Cons True same] show ?thesis
          by (simp add: isl_emit)
      next
        case notesc: False
        show ?thesis
        proof (cases "take_field cs")
          case None
          with lb Cons notesc show ?thesis by (simp del: take_field.simps)
        next
          case (Some fr)
          obtain field rest where fr: "fr = (field, rest)" by (cases fr)
          note tf = Some[unfolded fr]
          show ?thesis
          proof (cases "format_field kwargs cs field")
            case (Inl e)
            with format_field_same_keys[OF same, of cs field]
            obtain e' where "format_field kw' cs field = Inl e'"
              by (cases "format_field kw' cs field") auto
            with Inl lb Cons notesc tf show ?thesis
              by (simp del: take_field.simps)
          next
            case (Inr v)
            with format_field_same_keys[OF same, of cs field]
            obtain v' where v': "format_field kw' cs field = Inr v'"
              by (cases "format_field kw' cs field") auto
            have "isl (str_format kwargs rest) = isl (str_format kw' rest)"
              using "2.IH"(2)[OF lb Cons notesc \<open>take_field cs = Some fr\<close> fr[symmetric] Inr same] .
            with Inr v' lb Cons notesc tf show ?thesis
              by (simp add: isl_emit del: take_field.simps)
          qed
        qed
      qed
    qed
  next
    case notopen: False
    show ?thesis
    proof (cases "c = CHR ''}''")
      case rb: True
      show ?thesis
      proof (cases cs)
        case Nil
        with notopen rb show ?thesis by simp
      next
        case (Cons d ds)
        show ?thesis
        proof (cases "d = CHR ''}''")
          case True
          with notopen rb Cons "2.IH"(3)[OF notopen rb Cons True same] show ?thesis
            by (simp add: isl_emit)
        next
          case False
          with notopen rb Cons show ?thesis by simp
        qed
      qed
    next
      case False
      with notopen "2.IH"(4)[OF notopen False same] show ?thesis
        by (simp add: isl_emit)
    qed
  qed
qed

lemma str_format_same_dom:
  "dom kw = dom kw' \<Longrightarrow> isl (str_format kw t) = isl (str_format kw' t)"
  by (rule str_format_same_keys) (metis domIff)

lemma take_field_append:
  "take_field cs = Some (f, rest) \<Longrightarrow> take_field (cs @ s) = Some (f, rest @ s)"
  by (induction cs arbitrary: f rest) (auto split: if_splits option.splits)

lemma take_field_no_brace:
  "take_field cs = Some (f, rest) \<Longrightarrow> cs = f @ CHR ''}'' # rest \<and> CHR ''}'' \<notin> set f"
  by (induction cs arbitrary: f rest) (auto split: if_splits option.splits)

lemma format_field_append:
  assumes "take_field cs = Some (field, rest)" "format_field kw cs field = Inr v"
  shows "format_field kw (cs @ s) field = Inr v"
proof -
  from assms(2) have "\<not> list_ex (\<lambda>x. x \<in> set ''.[!:{'') field"
    by (auto simp: format_field_def split: if_splits sum.splits)
  with assms(2) show ?thesis
    by (simp add: format_field_def)
qed

lemma str_format_append:
  "str_format kw pre = Inr out \<Longrightarrow> str_format kw (pre @ s) = emit out (str_format kw s)"
proof (induction kw pre arbitrary: out rule: str_format.induct)
  case (1 kwargs)
  then show ?case by (simp add: emit_Nil)
next
  case (2 kwargs c cs)
  note ok = "2.prems"
  show ?case
  proof (cases "c = CHR ''{''")
    case lb: True
    show ?thesis
    proof (cases cs)
      case Nil
      with lb ok show ?thesis by simp
    next
      case (Cons d ds)
      show ?thesis
      proof (cases "d = CHR ''{''")
        case True
        with lb Cons ok obtain t where t: "str_format kwargs ds = Inr t" "out = ''{'' @ t"
          by (auto simp: emit_eq_Inr)
        from "2.IH"(1)[OF lb Cons True t(1)] lb Cons True t show ?thesis
          by (simp add: emit_emit)
      next
        case notesc: False
        show ?thesis
        proof (cases "take_field cs")
          case None
          with lb Cons notesc ok show ?thesis by (simp del: take_field.simps)
        next
          case (Some fr)
          obtain field rest where fr: "fr = (field, rest)" by (cases fr)
          note tf = Some[unfolded fr]
          have tf': "take_field (d # ds @ s) = Some (field, rest @ s)"
            using take_field_append[OF tf, of s] Cons by simp
          from lb Cons notesc tf ok obtain v t where
            v: "format_field kwargs cs field = Inr v" and t: "str_format kwargs rest = Inr t" "out = v @ t"
            by (auto simp del: take_field.simps simp: emit_eq_Inr split: sum.splits)
          have v': "format_field kwargs (d # ds @ s) field = Inr v"
            using format_field_append[OF tf v, of s] Cons by simp
          from "2.IH"(2)[OF lb Cons notesc \<open>take_field cs = Some fr\<close> fr[symmetric] v t(1)]
          have "str_format kwargs (rest @ s) = emit t (str_format kwargs s)" .
          with lb Cons notesc tf' v' t show ?thesis
            by (simp add: emit_emit del: take_field.simps)
        qed
      qed
    qed
  next
    case notopen: False
    show ?thesis
    proof (cases "c = CHR ''}''")
      case rb: True
      show ?thesis
      proof (cases cs)
        case Nil
        with notopen rb ok show ?thesis by simp
      next
        case (Cons d ds)
        show ?thesis
        proof (cases "d = CHR ''}''")
          case True
          with notopen rb Cons ok obtain t where t: "str_format kwargs ds = Inr t" "out = ''}'' @ t"
            by (auto simp: emit_eq_Inr)
          from "2.IH"(3)[OF notopen rb Cons True t(1)] notopen rb Cons True t show ?thesis
            by (simp add: emit_emit)
        next
          case False
          with notopen rb Cons ok show ?thesis by simp
        qed
      qed
    next
      case False
      with notopen ok obtain t where t: "str_format kwargs cs = Inr t" "out = [c] @ t"
        by (auto simp: emit_eq_Inr)
      from "2.IH"(4)[OF notopen False t(1)] notopen False t show ?thesis
        by (simp add: emit_emit)
    qed
  qed
qed

lemma take_field_name:
  "CHR ''}'' \<notin> set n \<Longrightarrow> take_field (n @ CHR ''}'' # post) = Some (n, post)"
  by (induction n) auto

lemma plain_nameD:
  "plain_name n \<Longrightarrow> CHR ''}'' \<notin> set n \<and> \<not> list_ex (\<lambda>x. x \<in> set ''.[!:{'') n"
  by (auto simp: plain_name_def list_ex_iff)

lemma str_format_field:
  assumes "plain_name n"
  shows "str_format kw (''{'' @ n @ ''}'' @ post) =
     (case lookup_arg kw n of Inl e \<Rightarrow> Inl e | Inr v \<Rightarrow> emit v (str_format kw post))"
proof -
  from plain_nameD[OF assms] have nb: "CHR ''}'' \<notin> set n"
    and ns: "\<not> list_ex (\<lambda>x. x \<in> set ''.[!:{'') n" by simp_all
  have tf: "take_field (n @ CHR ''}'' # post) = Some (n, post)"
    using nb by (rule take_field_name)
  have ff: "format_field kw (n @ CHR ''}'' # post) n = lookup_arg kw n"
    using ns by (simp add: format_field_def)
  show ?thesis
  proof (cases n)
    case Nil
    with tf ff show ?thesis by simp
  next
    case (Cons d ds)
    with ns have "d \<noteq> CHR ''{''" by auto
    with Cons tf ff show ?thesis
      by (simp del: take_field.simps)
  qed
qed

lemma lookup_arg_error:
  "lookup_arg kw n = Inl e \<Longrightarrow> e = KeyError n \<or> e = IndexError \<or> e = ValueError"
  by (auto simp: lookup_arg_def split: if_splits option.splits)

lemma prefix_before_brace:
  "n @ x # xs = field @ b # rest \<Longrightarrow> b \<notin> set n \<Longrightarrow> b \<notin> set field \<Longrightarrow> x \<noteq> b \<Longrightarrow>
   \<exists>w. field = n @ x # w"
proof (induction n arbitrary: field)
  case Nil
  then show ?case by (cases field) auto
next
  case (Cons a n)
  then show ?case by (cases field) auto
qed

lemma str_format_unknown_field:
  assumes "plain_name n" "ends_name tail" "lookup_arg kw n = Inl e"
  shows "str_format kw (''{'' @ n @ tail) = Inl e \<or> str_format kw (''{'' @ n @ tail) = Inl ValueError"
proof -
  from plain_nameD[OF assms(1)] have nb: "CHR ''}'' \<notin> set n"
    and ns: "\<not> list_ex (\<lambda>x. x \<in> set ''.[!:{'') n" by simp_all
  from assms(2) obtain x xs where tail: "tail = x # xs" and x: "x \<in> set ''}!:.[''"
    by (cases tail) (auto simp: ends_name_def)
  have nonesc: "\<exists>d ds. n @ tail = d # ds \<and> d \<noteq> CHR ''{''"
  proof (cases n)
    case Nil
    with tail x show ?thesis by auto
  next
    case (Cons d ds)
    with ns show ?thesis by auto
  qed
  then obtain d ds where cs: "n @ tail = d # ds" and d: "d \<noteq> CHR ''{''" by blast
  show ?thesis
  proof (cases "take_field (n @ tail)")
    case None
    with cs d show ?thesis by (simp del: take_field.simps)
  next
    case (Some fr)
    obtain field rest where fr: "fr = (field, rest)" by (cases fr)
    note tf = Some[unfolded fr]
    have "format_field kw (n @ tail) field = Inl e \<or> format_field kw (n @ tail) field = Inl ValueError"
    proof (cases "x = CHR ''}''")
      case True
      with tail take_field_name[OF nb, of xs] tf have "field = n" by simp
      with ns assms(3) show ?thesis by (simp add: format_field_def)
    next
      case False
      from take_field_no_brace[OF tf] have eq: "n @ tail = field @ CHR ''}'' # rest"
        and fb: "CHR ''}'' \<notin> set field" by simp_all
      have pre: "\<exists>w. field = n @ x # w"
        using eq[unfolded tail] nb fb False by (rule prefix_before_brace)
      then obtain w where w: "field = n @ x # w" by blast
      from x False have xs: "x \<in> set ''.[!:{''" by auto
      then have sp: "list_ex (\<lambda>x. x \<in> set ''.[!:{'') field"
        unfolding w list_ex_iff by auto
      have "\<forall>y\<in>set n. y \<notin> set ''.[!:{''"
        using ns by (auto simp: list_ex_iff)
      then have tw: "takeWhile (\<lambda>x. x \<notin> set ''.[!:{'') field = n"
        unfolding w using xs by (simp add: takeWhile_append2)
      from sp tw assms(3) show ?thesis
        by (simp add: format_field_def)
    qed
    with cs d tf show ?thesis
      by (auto simp del: take_field.simps)
  qed
qed

lemma formats_concat: "list_all formats ls \<Longrightarrow> formats (concat ls)"
proof (induction ls)
  case Nil
  then show ?case by (simp add: formats_def)
next
  case (Cons l ls)
  then obtain out where out: "str_format blank_kwargs l = Inr out"
    by (cases "str_format blank_kwargs l") (auto simp: formats_def)
  from Cons have "formats (concat ls)" by simp
  with str_format_append[OF out, of "concat ls"] show ?case
    by (simp add: formats_def isl_emit)
qed

lemma catalog_formats_blank:
  "formats demo_greeting" "formats demo_conversation" "formats demo_farewell"
  "formats interview_greeting" "formats interview_conversation" "formats interview_farewell"
  "formats payment_greeting" "formats payment_conversation" "formats payment_farewell"
  unfolding demo_greeting_def demo_conversation_def demo_farewell_def
    interview_greeting_def interview_conversation_def interview_farewell_def
    payment_greeting_def payment_conversation_def payment_farewell_def
  by (rule formats_concat, code_simp)+

lemma dom_format_kwargs: "dom (format_kwargs a u) = set placeholders"
  unfolding format_kwargs_def Let_def dom_map_of_conv_image_fst
    placeholders_def profile_placeholders_def knowledge_placeholders_def
  by simp

lemma dom_blank_kwargs: "dom blank_kwargs = set placeholders"
  unfolding blank_kwargs_def dom_map_of_conv_image_fst by (simp add: image_image)

lemma format_prompt_isl:
  "isl (format_prompt a template user_input) = isl (str_format blank_kwargs template)"
  unfolding format_prompt_def
  by (rule str_format_same_dom) (simp only: dom_format_kwargs dom_blank_kwargs)

lemma catalog_formats: "t \<in> set catalog \<Longrightarrow> \<exists>p. format_prompt a t u = Inr p"
proof -
  assume "t \<in> set catalog"
  then have "formats t"
    by (auto simp: catalog_def templates_def catalog_formats_blank)
  then have "\<not> isl (format_prompt a t u)"
    by (simp add: format_prompt_isl formats_def)
  then show ?thesis
    by (cases "format_prompt a t u") auto
qed

lemma get_prompt_template_cases:
  "get_prompt_template a phase = [] \<or> get_prompt_template a phase \<in> set catalog"
  by (simp add: get_prompt_template_def templates_def catalog_def)

lemma empty_formats: "format_prompt a [] u = Inr []"
  by (simp add: format_prompt_def)

lemma template_formats: "\<exists>p. format_prompt a (get_prompt_template a phase) u = Inr p"
  using get_prompt_template_cases[of a phase] catalog_formats[of "get_prompt_template a phase" a u]
  by (auto simp: empty_formats)

lemma templates_nonempty:
  "demo_greeting \<noteq> []" "demo_conversation \<noteq> []" "demo_farewell \<noteq> []"
  "interview_greeting \<noteq> []" "interview_conversation \<noteq> []" "interview_farewell \<noteq> []"
  "payment_greeting \<noteq> []" "payment_conversation \<noteq> []" "payment_farewell \<noteq> []"
  by (simp_all add: demo_greeting_def demo_conversation_def demo_farewell_def
      interview_greeting_def interview_conversation_def interview_farewell_def
      payment_greeting_def payment_conversation_def payment_farewell_def)

section \<open>The chains: lemmas\<close>

lemma get_prompt_template_scenario:
  "scenario a = scenario b \<Longrightarrow> get_prompt_template a phase = get_prompt_template b phase"
  by (simp add: get_prompt_template_def)

lemma format_prompt_memory:
  "memory a = memory b \<Longrightarrow> format_prompt a t u = format_prompt b t u"
  by (simp add: format_prompt_def format_kwargs_def)

lemma new_agent_messages: "messages (memory (new_agent sc)) = []"
  by (simp add: new_agent_def load_scenario_data_def set_context_def new_memory_def)

lemma new_agent_trace: "trace (new_agent sc) = []"
  by (simp add: new_agent_def load_scenario_data_def)

lemma running_log_io: "running (log_io x a) = running a"
  by (simp add: log_io_def)

lemma memory_log_io: "memory (log_io x a) = memory a"
  by (simp add: log_io_def)

lemma scenario_log_io: "scenario (log_io x a) = scenario a"
  by (simp add: log_io_def)

lemma trace_log_io: "trace (log_io x a) = trace a @ [x]"
  by (simp add: log_io_def)

lemma generate_response_eq:
  "generate_response sv prompt a = (reply sv prompt, log_io (Generate prompt) a)"
  by (simp add: generate_response_def reply_def split: sum.splits)

lemma run_greeting_chain_eq:
  "format_prompt a (get_prompt_template a ''greeting'') '''' = Inr prompt \<Longrightarrow>
   run_greeting_chain sv a =
     (Inr (reply sv prompt),
      a\<lparr>memory := add_agent_message (reply sv prompt) (memory a),
        trace := trace a @ [Generate prompt]\<rparr>)"
  by (simp add: run_greeting_chain_def generate_response_eq log_io_def)

lemma run_farewell_chain_eq:
  "format_prompt a (get_prompt_template a ''farewell'') '''' = Inr prompt \<Longrightarrow>
   run_farewell_chain sv a =
     (Inr (reply sv prompt),
      a\<lparr>memory := add_agent_message (reply sv prompt) (memory a),
        trace := trace a @ [Generate prompt]\<rparr>)"
  by (simp add: run_farewell_chain_def generate_response_eq log_io_def)

lemma run_conversation_chain_eq:
  assumes "format_prompt (a\<lparr>memory := add_user_message u (memory a)\<rparr>)
             (get_prompt_template a ''conversation'') u = Inr prompt"
  shows "run_conversation_chain sv u a =
     (Inr (reply sv prompt),
      a\<lparr>memory := add_agent_message (reply sv prompt) (add_user_message u (memory a)),
        trace := trace a @ [Generate prompt]\<rparr>)"
proof -
  have t: "get_prompt_template (a\<lparr>memory := add_user_message u (memory a)\<rparr>) ''conversation''
        = get_prompt_template a ''conversation''"
    by (rule get_prompt_template_scenario) simp
  show ?thesis
    using assms
    by (simp add: run_conversation_chain_def Let_def t generate_response_eq log_io_def)
qed

lemma conversation_prompt_exists:
  "\<exists>prompt. format_prompt (a\<lparr>memory := add_user_message u (memory a)\<rparr>)
             (get_prompt_template a ''conversation'') u = Inr prompt"
proof -
  have "get_prompt_template (a\<lparr>memory := add_user_message u (memory a)\<rparr>) ''conversation''
        = get_prompt_template a ''conversation''"
    by (rule get_prompt_template_scenario) simp
  with template_formats[of "a\<lparr>memory := add_user_message u (memory a)\<rparr>" "''conversation''" u]
  show ?thesis by auto
qed

lemma run_conversation_chain_total:
  "\<exists>r a2. run_conversation_chain sv u a = (Inr r, a2) \<and> running a2 = running a \<and>
     scenario a2 = scenario a \<and>
     messages (memory a2) =
       messages (memory a) @ [\<lparr>role = ''user'', content = u\<rparr>, \<lparr>role = ''agent'', content = r\<rparr>]"
proof -
  obtain prompt where "format_prompt (a\<lparr>memory := add_user_message u (memory a)\<rparr>)
             (get_prompt_template a ''conversation'') u = Inr prompt"
    using conversation_prompt_exists by blast
  from run_conversation_chain_eq[OF this, of sv] show ?thesis
    by (simp add: add_agent_message_def add_user_message_def)
qed

lemma run_greeting_chain_total:
  "\<exists>r a1. run_greeting_chain sv a = (Inr r, a1) \<and> running a1 = running a \<and>
     messages (memory a1) = messages (memory a) @ [\<lparr>role = ''agent'', content = r\<rparr>]"
proof -
  obtain prompt where "format_prompt a (get_prompt_template a ''greeting'') '''' = Inr prompt"
    using template_formats by blast
  from run_greeting_chain_eq[OF this, of sv] show ?thesis
    by (simp add: add_agent_message_def)
qed

lemma run_farewell_chain_total:
  "\<exists>r a1. run_farewell_chain sv a = (Inr r, a1) \<and> running a1 = running a \<and>
     messages (memory a1) = messages (memory a) @ [\<lparr>role = ''agent'', content = r\<rparr>]"
proof -
  obtain prompt where "format_prompt a (get_prompt_template a ''farewell'') '''' = Inr prompt"
    using template_formats by blast
  from run_farewell_chain_eq[OF this, of sv] show ?thesis
    by (simp add: add_agent_message_def)
qed

section \<open>The loop: lemmas\<close>

lemma loop_exit:
  "running a \<Longrightarrow> lower (lower text) \<in> set exit_commands \<Longrightarrow>
   conversation_loop sv (Recognized text # evs) a = Some (None, log_io Listen a)"
  by (simp add: recognize_speech_def)

lemma loop_skip:
  "running a \<Longrightarrow> fst (recognize_speech ev a) = Inr '''' \<Longrightarrow>
   conversation_loop sv (ev # evs) a = conversation_loop sv evs (log_io Listen a)"
  by (cases ev) (auto simp: recognize_speech_def lower_def exit_commands_def)

lemma loop_mic_failure:
  "running a \<Longrightarrow> conversation_loop sv (MicFailure e # evs) a = Some (Some e, log_io Listen a)"
  by (simp add: recognize_speech_def)

lemma loop_turn:
  "running a \<Longrightarrow> lower (lower text) \<notin> set exit_commands \<Longrightarrow> lower text \<noteq> [] \<Longrightarrow>
   run_conversation_chain sv (lower text) (log_io Listen a) = (Inr r, a2) \<Longrightarrow>
   conversation_loop sv (Recognized text # evs) a =
     (case playback sv r of
        Some e \<Rightarrow> Some (Some e, log_io (Speak r) a2)
      | None \<Rightarrow> conversation_loop sv evs (log_io (Speak r) a2))"
  by (simp add: recognize_speech_def speak_def split: option.splits)

lemma loop_not_running: "\<not> running a \<Longrightarrow> conversation_loop sv script a = Some (None, a)"
  by (cases script) simp_all

declare conversation_loop.simps(2) [simp del]

lemma loop_cases:
  assumes "running a" "\<not> stops ev" "fst (recognize_speech ev a) \<noteq> Inr ''''"
  obtains utt r a2 where "ev = Recognized utt" "lower utt \<noteq> []"
    "lower (lower utt) \<notin> set exit_commands"
    "run_conversation_chain sv (lower utt) (log_io Listen a) = (Inr r, a2)"
    "running a2"
    "messages (memory a2) = messages (memory a) @
       [\<lparr>role = ''user'', content = lower utt\<rparr>, \<lparr>role = ''agent'', content = r\<rparr>]"
proof -
  from assms obtain utt where ev: "ev = Recognized utt" and ne: "lower utt \<noteq> []"
    and nx: "lower (lower utt) \<notin> set exit_commands"
    by (cases ev) (auto simp: recognize_speech_def)
  obtain r a2 where "run_conversation_chain sv (lower utt) (log_io Listen a) = (Inr r, a2)"
    "running a2 = running (log_io Listen a)"
    "messages (memory a2) = messages (memory (log_io Listen a)) @
       [\<lparr>role = ''user'', content = lower utt\<rparr>, \<lparr>role = ''agent'', content = r\<rparr>]"
    using run_conversation_chain_total by blast
  with assms(1) ev ne nx that show ?thesis
    by (simp add: running_log_io memory_log_io)
qed

lemma loop_returns:
  "list_ex stops script \<Longrightarrow> \<exists>r a'. conversation_loop sv script a = Some (r, a')"
proof (induction script arbitrary: a)
  case Nil
  then show ?case by simp
next
  case (Cons ev evs)
  show ?case
  proof (cases "running a")
    case False
    then show ?thesis by (simp add: loop_not_running)
  next
    case True
    show ?thesis
    proof (cases "stops ev")
      case stop: True
      then show ?thesis
        using True by (cases ev) (simp_all add: loop_exit loop_mic_failure)
    next
      case False
      with Cons.prems have rest: "list_ex stops evs" by simp
      show ?thesis
      proof (cases "fst (recognize_speech ev a) = Inr ''''")
        case True
        with \<open>running a\<close> Cons.IH[OF rest] show ?thesis by (simp add: loop_skip)
      next
        case nonempty: False
        from loop_cases[OF True False nonempty, of sv] obtain utt r a2 where
          ev: "ev = Recognized utt" and ne: "lower utt \<noteq> []"
          and nx: "lower (lower utt) \<notin> set exit_commands"
          and t: "run_conversation_chain sv (lower utt) (log_io Listen a) = (Inr r, a2)"
          by metis
        show ?thesis
          unfolding ev loop_turn[OF True nx ne t]
          using Cons.IH[OF rest] by (simp split: option.splits)
      qed
    qed
  qed
qed

lemma loop_keeps_running:
  "conversation_loop sv script a = Some (r, a') \<Longrightarrow> running a' = running a"
proof (induction script arbitrary: a)
  case Nil
  then show ?case by (auto split: if_splits)
next
  case (Cons ev evs)
  show ?case
  proof (cases "running a")
    case False
    with Cons.prems show ?thesis by (simp add: loop_not_running)
  next
    case True
    show ?thesis
    proof (cases "stops ev")
      case stop: True
      then show ?thesis
        using True Cons.prems by (cases ev) (auto simp: loop_exit loop_mic_failure running_log_io)
    next
      case False
      show ?thesis
      proof (cases "fst (recognize_speech ev a) = Inr ''''")
        case skip: True
        with True Cons.prems have "conversation_loop sv evs (log_io Listen a) = Some (r, a')"
          by (simp add: loop_skip)
        from Cons.IH[OF this] show ?thesis by (simp add: running_log_io)
      next
        case nonempty: False
        from loop_cases[OF True False nonempty, of sv] obtain utt rr a2 where
          ev: "ev = Recognized utt" and ne: "lower utt \<noteq> []"
          and nx: "lower (lower utt) \<notin> set exit_commands"
          and t: "run_conversation_chain sv (lower utt) (log_io Listen a) = (Inr rr, a2)"
          and r2: "running a2"
          by metis
        note step = Cons.prems[unfolded ev loop_turn[OF True nx ne t]]
        show ?thesis
        proof (cases "playback sv rr")
          case None
          with step have "conversation_loop sv evs (log_io (Speak rr) a2) = Some (r, a')" by simp
          from Cons.IH[OF this] r2 True show ?thesis by (simp add: running_log_io)
        next
          case (Some e)
          with step have "a' = log_io (Speak rr) a2" by simp
          with r2 True show ?thesis by (simp add: running_log_io)
        qed
      qed
    qed
  qed
qed

section \<open>The call: lemmas\<close>

lemma running_end_call: "\<not> running (end_call a)"
  by (simp add: end_call_def log_io_def)

lemma start_call_ends: "start_call sv script a = Some a' \<Longrightarrow> \<not> running a'"
  by (auto simp: start_call_def running_end_call split: option.splits prod.splits)

lemma call_body_loop_failure:
  "run_greeting_chain sv a = (Inr g, a1) \<Longrightarrow> playback sv g = None \<Longrightarrow>
   conversation_loop sv script (log_io (Speak g) a1) = Some (Some e, a3) \<Longrightarrow>
   call_body sv script a = Some (Some e, a3)"
  by (simp add: call_body_def speak_def)

lemma call_body_loop_break:
  "run_greeting_chain sv a = (Inr g, a1) \<Longrightarrow> playback sv g = None \<Longrightarrow>
   conversation_loop sv script (log_io (Speak g) a1) = Some (None, a3) \<Longrightarrow>
   run_farewell_chain sv a3 = (Inr f, a4) \<Longrightarrow>
   call_body sv script a = Some (playback sv f, log_io (Speak f) a4)"
  by (simp add: call_body_def speak_def)

lemma start_call_loop_failure:
  "run_greeting_chain sv (a\<lparr>running := True\<rparr>) = (Inr g, a1) \<Longrightarrow> playback sv g = None \<Longrightarrow>
   conversation_loop sv script (log_io (Speak g) a1) = Some (Some e, a3) \<Longrightarrow>
   start_call sv script a = Some (a3\<lparr>running := False, trace := trace a3 @ [Report e, Ended]\<rparr>)"
  by (simp add: start_call_def call_body_loop_failure end_call_def log_io_def)

lemma call_body_returns:
  "list_ex stops script \<Longrightarrow> \<exists>r a'. call_body sv script a = Some (r, a')"
proof -
  assume s: "list_ex stops script"
  obtain g a1 where g: "run_greeting_chain sv a = (Inr g, a1)"
    using run_greeting_chain_total by blast
  show ?thesis
  proof (cases "playback sv g")
    case (Some e)
    with g show ?thesis by (simp add: call_body_def speak_def)
  next
    case None
    obtain r a3 where l: "conversation_loop sv script (log_io (Speak g) a1) = Some (r, a3)"
      using loop_returns[OF s] by blast
    show ?thesis
    proof (cases r)
      case (Some e)
      with g None l call_body_loop_failure show ?thesis by blast
    next
      case brk: None
      obtain f a4 where "run_farewell_chain sv a3 = (Inr f, a4)"
        using run_farewell_chain_total by blast
      with g None l brk call_body_loop_break show ?thesis by blast
    qed
  qed
qed

lemma start_call_returns: "list_ex stops script \<Longrightarrow> \<exists>a'. start_call sv script a = Some a'"
  using call_body_returns[of script sv "a\<lparr>running := True\<rparr>"]
  by (auto simp: start_call_def split: option.splits)

section \<open>The call with a parameter: lemmas\<close>











section \<open>Placeholders: lemmas\<close>

lemma format_kwargs_profile_all:
  "list_all (\<lambda>k. format_kwargs a u k =
       Some (dict_get (get_context (memory a) ''profile'' Map.empty) k ''''))
     profile_placeholders"
  by (simp add: profile_placeholders_def format_kwargs_def Let_def)

lemma format_kwargs_knowledge_all:
  "list_all (\<lambda>k. format_kwargs a u k =
       Some (dict_get (get_context (memory a) ''knowledge'' Map.empty) k ''''))
     knowledge_placeholders"
  by (simp add: knowledge_placeholders_def format_kwargs_def Let_def)

lemma format_kwargs_profile:
  "k \<in> set profile_placeholders \<Longrightarrow>
   format_kwargs a u k = Some (dict_get (get_context (memory a) ''profile'' Map.empty) k '''')"
  using format_kwargs_profile_all[of a u] unfolding list_all_iff by blast

lemma format_kwargs_knowledge:
  "k \<in> set knowledge_placeholders \<Longrightarrow>
   format_kwargs a u k = Some (dict_get (get_context (memory a) ''knowledge'' Map.empty) k '''')"
  using format_kwargs_knowledge_all[of a u] unfolding list_all_iff by blast

lemma placeholders_plain_all:
  "list_all (\<lambda>k. plain_name k \<and> \<not> list_all is_digit k) placeholders"
  by code_simp

lemma placeholders_plain:
  "k \<in> set placeholders \<Longrightarrow> plain_name k \<and> \<not> list_all is_digit k"
  using placeholders_plain_all by (simp add: list_all_iff)

lemma format_kwargs_other: "n \<notin> set placeholders \<Longrightarrow> format_kwargs a u n = None"
  using dom_format_kwargs[of a u] by (auto simp: domIff)

lemma lookup_arg_unknown: "kw n = None \<Longrightarrow> \<exists>e. lookup_arg kw n = Inl e"
  by (simp add: lookup_arg_def)

lemma format_prompt_field:
  assumes "format_prompt a pre u = Inr out" "plain_name n"
  shows "format_prompt a (pre @ ''{'' @ n @ ''}'' @ post) u =
     (case lookup_arg (format_kwargs a u) n of
        Inl e \<Rightarrow> Inl e
      | Inr v \<Rightarrow> emit (out @ v) (format_prompt a post u))"
proof -
  have "str_format (format_kwargs a u) (pre @ ''{'' @ n @ ''}'' @ post) =
      emit out (str_format (format_kwargs a u) (''{'' @ n @ ''}'' @ post))"
    using assms(1) unfolding format_prompt_def by (rule str_format_append)
  also have "\<dots> = emit out
     (case lookup_arg (format_kwargs a u) n of
        Inl e \<Rightarrow> Inl e
      | Inr v \<Rightarrow> emit v (str_format (format_kwargs a u) post))"
    by (simp only: str_format_field[OF assms(2)])
  also have "\<dots> =
     (case lookup_arg (format_kwargs a u) n of
        Inl e \<Rightarrow> Inl e
      | Inr v \<Rightarrow> emit (out @ v) (str_format (format_kwargs a u) post))"
    by (cases "lookup_arg (format_kwargs a u) n") (simp_all add: emit_Inl emit_emit)
  finally show ?thesis
    unfolding format_prompt_def .
qed

lemma format_prompt_blank_field:
  assumes "format_prompt a pre u = Inr out" "k \<in> set placeholders" "format_kwargs a u k = Some ''''"
  shows "format_prompt a (pre @ ''{'' @ k @ ''}'' @ post) u = format_prompt a (pre @ post) u"
proof -
  from placeholders_plain[OF assms(2)] have p: "plain_name k" and d: "\<not> list_all is_digit k"
    by simp_all
  from d assms(3) have l: "lookup_arg (format_kwargs a u) k = Inr ''''"
    by (simp add: lookup_arg_def)
  have "format_prompt a (pre @ post) u = emit out (format_prompt a post u)"
    using assms(1) unfolding format_prompt_def by (rule str_format_append)
  with format_prompt_field[OF assms(1) p, of post] l show ?thesis
    by simp
qed

lemma format_prompt_unknown_field:
  assumes "format_prompt a pre u = Inr out" "plain_name n" "n \<notin> set placeholders"
    "ends_name tail"
  shows "\<exists>e. format_prompt a (pre @ ''{'' @ n @ tail) u = Inl e \<and>
           (e = KeyError n \<or> e = IndexError \<or> e = ValueError)"
proof -
  have "format_kwargs a u n = None"
    using assms(3) by (rule format_kwargs_other)
  then obtain e where e: "lookup_arg (format_kwargs a u) n = Inl e"
    using lookup_arg_unknown by blast
  have "str_format (format_kwargs a u) (pre @ ''{'' @ n @ tail) =
      emit out (str_format (format_kwargs a u) (''{'' @ n @ tail))"
    using assms(1) unfolding format_prompt_def by (rule str_format_append)
  with str_format_unknown_field[OF assms(2) assms(4) e] lookup_arg_error[OF e]
  show ?thesis
    unfolding format_prompt_def by (auto simp: emit_Inl)
qed

lemma demo_examples:
  "format_prompt (new_agent ''demo'') ''Experience: '' '''' = Inr ''Experience: ''"
  "format_prompt (new_agent ''demo'') ''Experience: .'' '''' = Inr ''Experience: .''"
  "format_prompt (new_agent ''demo'') ''Budget: '' '''' = Inr ''Budget: ''"
  "get_context (memory (new_agent ''demo'')) ''profile'' Map.empty ''experience'' = None"
  "plain_name ''budget''"
  "''budget'' \<notin> set placeholders"
  "''experience'' \<in> set profile_placeholders"
  "ends_name ''}''"
  "ends_name ''!r}''"
  "format_prompt (new_agent ''demo'') ''Budget: {budget}'' '''' = Inl (KeyError ''budget'')"
  "format_prompt (new_agent ''demo'') ''Budget: {budget!r}'' '''' = Inl (KeyError ''budget'')"
  by code_simp+

section \<open>Concrete calls: lemmas\<close>

lemma loop_single_break:
  assumes "running a"
  shows "(\<exists>a'. conversation_loop sv [Recognized text] a = Some (None, a')) =
         (lower (lower text) \<in> set exit_commands)"
proof (cases "lower (lower text) \<in> set exit_commands")
  case True
  with assms show ?thesis by (simp add: loop_exit)
next
  case False
  then have ns: "\<not> stops (Recognized text)" by simp
  show ?thesis
  proof (cases "fst (recognize_speech (Recognized text) a) = Inr ''''")
    case True
    with assms False show ?thesis by (simp add: loop_skip running_log_io)
  next
    case nonempty: False
    from loop_cases[OF assms ns nonempty, of sv] obtain utt r a2 where
      ev: "Recognized text = Recognized utt" and ne: "lower utt \<noteq> []"
      and nx: "lower (lower utt) \<notin> set exit_commands"
      and t: "run_conversation_chain sv (lower utt) (log_io Listen a) = (Inr r, a2)"
      and r2: "running a2"
      by metis
    from ev have "utt = text" by simp
    with loop_turn[OF assms nx ne t, of "[]"] r2 False show ?thesis
      by (simp add: running_log_io split: option.splits)
  qed
qed

lemma exit_examples:
  "list_ex (equal_ignoring_case ''Bye'') exit_commands"
  "list_ex (equal_ignoring_case ''BYE'') exit_commands"
  "list_ex (equal_ignoring_case ''end call'') exit_commands"
  "\<not> list_ex (equal_ignoring_case ''goodbye for now'') exit_commands"
  by code_simp+

lemma reply_working: "reply working_services prompt = ''Namaste''"
  by (simp add: reply_def working_services_def)

lemma playback_working: "playback working_services t = None"
  by (simp add: working_services_def)



lemma start_call_mic_failure_working:
  "\<exists>prompt. start_call working_services (MicFailure e # evs) (new_agent sc) =
     Some \<lparr>scenario = scenario (new_agent sc),
           memory = add_agent_message ''Namaste'' (memory (new_agent sc)),
           running = False,
           trace = [Generate prompt, Speak ''Namaste'', Listen, Report e, Ended]\<rparr>"
proof -
  let ?A = "(new_agent sc)\<lparr>running := True\<rparr>"
  obtain prompt where "format_prompt ?A (get_prompt_template ?A ''greeting'') '''' = Inr prompt"
    using template_formats by blast
  note g = run_greeting_chain_eq[OF this, of working_services, unfolded reply_working]
  have l: "conversation_loop working_services (MicFailure e # evs)
       (log_io (Speak ''Namaste'')
         (?A\<lparr>memory := add_agent_message ''Namaste'' (memory ?A),
             trace := trace ?A @ [Generate prompt]\<rparr>)) =
     Some (Some e, log_io Listen (log_io (Speak ''Namaste'')
         (?A\<lparr>memory := add_agent_message ''Namaste'' (memory ?A),
             trace := trace ?A @ [Generate prompt]\<rparr>)))"
    by (rule loop_mic_failure) (simp add: running_log_io)
  from start_call_loop_failure[OF g playback_working l]
  show ?thesis
    by (intro exI[of _ prompt]) (simp add: log_io_def new_agent_trace)
qed




section \<open>The template lookup\<close>

text \<open>
  Claim C2, as stated: for a (scenario, phase) pair with no entry in the catalog, the
  template lookup fails with a typed error instead of yielding an empty template. The
  lookup is \<open>templates.get(self.scenario, {}).get(phase, "")\<close>: it cannot fail, and for the
  scenario \<open>sales\<close> and the phase \<open>greeting\<close> it returns the empty string.
\<close>

theorem get_prompt_template_sales_greeting:
  "get_prompt_template (new_agent ''sales'') ''greeting'' = ''''"
  by (simp add: get_prompt_template_def templates_def new_agent_def load_scenario_data_def)

text \<open>
  Claim C2, amended: the template lookup returns the empty template string, and no error,
  for every (scenario, phase) pair that has no entry in the catalog, that is whenever the
  scenario is not one of demo, interview, payment or the phase is not one of greeting,
  conversation, farewell; for the nine pairs of the catalog the template is not empty.
\<close>

theorem get_prompt_template_empty_iff:
  "(get_prompt_template a phase = '''') =
     (scenario a \<notin> {''demo'', ''interview'', ''payment''} \<or>
      phase \<notin> {''greeting'', ''conversation'', ''farewell''})"
  by (simp add: get_prompt_template_def templates_def templates_nonempty)

theorem get_prompt_template_empty_iff_witness:
  "''closing'' \<notin> {''greeting'', ''conversation'', ''farewell''} \<and>
   get_prompt_template (new_agent ''demo'') ''closing'' = ''''"
  using get_prompt_template_empty_iff [of "new_agent ''demo''" "''closing''"]
  by simp

section \<open>Generation\<close>

text \<open>
  Claim C7: for every prompt, \<open>generate_response\<close> returns the text of the backend when
  the backend succeeds, and the one fixed apology when the backend raises an exception;
  either way it returns (its result is a text, never an exception), having made one call
  to the backend and changed nothing else of the agent.
\<close>

theorem generate_response_text_or_fallback:
  "(generate_content sv prompt = Inr text \<longrightarrow>
      generate_response sv prompt a = (text, log_io (Generate prompt) a)) \<and>
   (generate_content sv prompt = Inl e \<longrightarrow>
      generate_response sv prompt a =
        (''Sorry, I'm having trouble generating a response. Let me try again.'',
         log_io (Generate prompt) a))"
  by (simp add: generate_response_def fallback_def)

theorem generate_response_text_or_fallback_witness:
  "generate_content working_services ''Say hello'' = Inr ''Namaste'' \<and>
   generate_response working_services ''Say hello'' (new_agent ''demo'') =
     (''Namaste'', log_io (Generate ''Say hello'') (new_agent ''demo'')) \<and>
   generate_content failing_backend ''Say hello'' = Inl (Error ''503'') \<and>
   generate_response failing_backend ''Say hello'' (new_agent ''demo'') =
     (''Sorry, I'm having trouble generating a response. Let me try again.'',
      log_io (Generate ''Say hello'') (new_agent ''demo''))"
  using
    generate_response_text_or_fallback
      [of working_services "''Say hello''" "''Namaste''" "new_agent ''demo''" "Error ''503''"]
    generate_response_text_or_fallback
      [of failing_backend "''Say hello''" "''Namaste''" "new_agent ''demo''" "Error ''503''"]
  by (simp add: working_services_def failing_backend_def)

section \<open>The rendered history\<close>

text \<open>
  Claim C8, as stated: N appended turns render as exactly N lines, each with the prefix of
  its role. A turn whose content has a newline in it, as a reply of the backend may,
  renders as more than one line, and the later ones carry no prefix: one agent turn gives
  two lines here.
\<close>

theorem get_conversation_history_multiline_turn:
  "splitlines (get_conversation_history
      \<lparr>context' = Map.empty,
       messages = [\<lparr>role = ''agent'', content = ''Namaste\<newline>ji''\<rparr>]\<rparr>)
    = [''AI: Namaste'', ''ji'']"
  by (simp add: get_conversation_history_def history_step_def)

text \<open>
  Claim C8, amended: for every sequence of N appended turns, the rendering is the
  concatenation, in insertion order, of N entries, each the prefix \<open>Customer\<close> for a user
  turn and \<open>AI\<close> for any other, a colon and a space, the content of the turn, and a
  newline; when no content contains a newline these are exactly N lines. The rendering is
  a function of the memory alone and returns only the text: the stored history and
  context are not changed.
\<close>

theorem get_conversation_history_entries:
  "get_conversation_history m =
     concat (map (\<lambda>msg. render_line msg @ ''\<newline>'') (messages m)) \<and>
   (list_all (\<lambda>msg. CHR ''\<newline>'' \<notin> set (content msg)) (messages m) \<longrightarrow>
      splitlines (get_conversation_history m) = map render_line (messages m) \<and>
      length (splitlines (get_conversation_history m)) = length (messages m))"
  by (simp add: get_conversation_history_def foldl_history_step splitlines_rendered)

theorem get_conversation_history_entries_witness:
  "list_all (\<lambda>msg. CHR ''\<newline>'' \<notin> set (content msg))
     (messages (add_agent_message ''Namaste'' (add_user_message ''hello'' new_memory))) \<and>
   splitlines (get_conversation_history
     (add_agent_message ''Namaste'' (add_user_message ''hello'' new_memory))) =
     [''Customer: hello'', ''AI: Namaste'']"
  using get_conversation_history_entries
    [of "add_agent_message ''Namaste'' (add_user_message ''hello'' new_memory)"]
  by (simp add: add_agent_message_def add_user_message_def new_memory_def render_line_def)

section \<open>A turn of the conversation\<close>

text \<open>
  Claim C3: for every user input, \<open>run_conversation_chain\<close> first appends the user turn,
  then formats the prompt (which never fails, whatever the scenario), and appends exactly
  one agent turn, whose content is the text of the backend or, when the backend fails,
  the fixed apology; in both cases the turn returns normally, the history grows by
  exactly two turns, the user's before the agent's.
\<close>

theorem run_conversation_chain_appends_two:
  "\<exists>prompt.
     format_prompt (a\<lparr>memory := add_user_message u (memory a)\<rparr>)
       (get_prompt_template a ''conversation'') u = Inr prompt \<and>
     run_conversation_chain sv u a =
       (Inr (reply sv prompt),
        a\<lparr>memory := add_agent_message (reply sv prompt) (add_user_message u (memory a)),
          trace := trace a @ [Generate prompt]\<rparr>) \<and>
     reply sv prompt =
       (case generate_content sv prompt of
          Inr text \<Rightarrow> text
        | Inl e \<Rightarrow> ''Sorry, I'm having trouble generating a response. Let me try again.'') \<and>
     messages (memory (snd (run_conversation_chain sv u a))) =
       messages (memory a) @
         [\<lparr>role = ''user'', content = u\<rparr>, \<lparr>role = ''agent'', content = reply sv prompt\<rparr>] \<and>
     length (messages (memory (snd (run_conversation_chain sv u a)))) =
       length (messages (memory a)) + 2"
proof -
  obtain prompt where p: "format_prompt (a\<lparr>memory := add_user_message u (memory a)\<rparr>)
       (get_prompt_template a ''conversation'') u = Inr prompt"
    using conversation_prompt_exists by blast
  show ?thesis
    apply (rule exI[of _ prompt])
    using p run_conversation_chain_eq[OF p, of sv]
    by (simp add: add_agent_message_def add_user_message_def reply_def fallback_def
        split: sum.splits)
qed

theorem run_conversation_chain_appends_two_witness:
  "messages (memory (snd (run_conversation_chain failing_backend ''hello'' (new_agent ''interview'')))) =
     [\<lparr>role = ''user'', content = ''hello''\<rparr>,
      \<lparr>role = ''agent'',
       content = ''Sorry, I'm having trouble generating a response. Let me try again.''\<rparr>]"
  using run_conversation_chain_appends_two
    [where a = "new_agent ''interview''" and u = "''hello''" and sv = failing_backend]
  by (auto simp: new_agent_messages failing_backend_def reply_def fallback_def)

section \<open>The loop\<close>

text \<open>
  Claim C5: each of the three recognition failures that \<open>recognize_speech\<close> catches gives
  the empty string; and in every iteration of the loop in which recognition gives the
  empty string the turn is skipped: the loop goes on with the rest of the script from an
  agent whose memory is as before and whose trace has gained the one call to the
  microphone (no call to the backend, no turn appended), so that after this iteration
  alone the loop has not ended and listens again.
\<close>

theorem empty_recognition_skips_turn:
  "(ev = UnknownValueError \<or> ev = RequestError \<or> ev = WaitTimeoutError \<longrightarrow>
      fst (recognize_speech ev a) = Inr '''') \<and>
   (running a \<and> fst (recognize_speech ev a) = Inr '''' \<longrightarrow>
      conversation_loop sv (ev # evs) a = conversation_loop sv evs (log_io Listen a) \<and>
      conversation_loop sv [ev] a = None \<and>
      memory (log_io Listen a) = memory a \<and>
      trace (log_io Listen a) = trace a @ [Listen] \<and>
      running (log_io Listen a))"
  by (auto simp: recognize_speech_def loop_skip memory_log_io trace_log_io running_log_io)

theorem empty_recognition_skips_turn_witness:
  "running ((new_agent ''demo'')\<lparr>running := True\<rparr>) \<and>
   fst (recognize_speech WaitTimeoutError ((new_agent ''demo'')\<lparr>running := True\<rparr>)) = Inr '''' \<and>
   conversation_loop working_services [WaitTimeoutError, UnknownValueError]
       ((new_agent ''demo'')\<lparr>running := True\<rparr>) =
     conversation_loop working_services [UnknownValueError]
       (log_io Listen ((new_agent ''demo'')\<lparr>running := True\<rparr>)) \<and>
   conversation_loop working_services [WaitTimeoutError]
       ((new_agent ''demo'')\<lparr>running := True\<rparr>) = None"
  using empty_recognition_skips_turn
    [where ev = WaitTimeoutError and a = "(new_agent ''demo'')\<lparr>running := True\<rparr>"
       and sv = working_services and evs = "[UnknownValueError]"]
  by simp

text \<open>
  Claim C4: for every utterance, one iteration of the loop ends the loop normally (the
  \<open>break\<close> after which \<open>start_call\<close> runs the farewell) exactly when the utterance, compared
  without regard to case, is one of the six exit commands; and such an utterance ends the
  loop at once, whatever follows it in the script. An utterance that only contains an exit
  command, as \<open>goodbye for now\<close>, does not end the loop.
\<close>

theorem exit_command_ends_loop:
  "running a \<Longrightarrow>
   ((\<exists>a'. conversation_loop sv [Recognized utterance] a = Some (None, a')) =
      list_ex (equal_ignoring_case utterance) exit_commands) \<and>
   (list_ex (equal_ignoring_case utterance) exit_commands \<longrightarrow>
      conversation_loop sv (Recognized utterance # evs) a = Some (None, log_io Listen a))"
  by (simp add: loop_single_break loop_exit lower_idem
      exit_iff_ignoring_case[symmetric])

theorem exit_command_ends_loop_witness:
  "running ((new_agent ''payment'')\<lparr>running := True\<rparr>) \<and>
   list_ex (equal_ignoring_case ''BYE'') exit_commands \<and>
   conversation_loop working_services [Recognized ''BYE'', Recognized ''hello'']
       ((new_agent ''payment'')\<lparr>running := True\<rparr>) =
     Some (None, log_io Listen ((new_agent ''payment'')\<lparr>running := True\<rparr>)) \<and>
   \<not> list_ex (equal_ignoring_case ''goodbye for now'') exit_commands \<and>
   \<not> (\<exists>a'. conversation_loop working_services [Recognized ''goodbye for now'']
          ((new_agent ''payment'')\<lparr>running := True\<rparr>) = Some (None, a'))"
  using
    exit_command_ends_loop
      [where a = "(new_agent ''payment'')\<lparr>running := True\<rparr>" and sv = working_services
         and utterance = "''BYE''" and evs = "[Recognized ''hello'']"]
    exit_command_ends_loop
      [where a = "(new_agent ''payment'')\<lparr>running := True\<rparr>" and sv = working_services
         and utterance = "''goodbye for now''" and evs = "[]"]
    exit_examples
  by simp

text \<open>
  Claim C10: when the utterance heard is an exit command, the loop breaks with the memory
  as it was before the utterance: nothing is appended to the history. The farewell chain
  that follows sends the backend the prompt formatted from that memory (its conversation
  history is the one rendered before the exit command was spoken) and appends only the
  agent's farewell turn.
\<close>

theorem exit_command_leaves_history:
  "running a \<Longrightarrow> list_ex (equal_ignoring_case utterance) exit_commands \<Longrightarrow>
   \<exists>prompt.
     conversation_loop sv (Recognized utterance # evs) a = Some (None, log_io Listen a) \<and>
     memory (log_io Listen a) = memory a \<and>
     format_prompt a (get_prompt_template a ''farewell'') '''' = Inr prompt \<and>
     run_farewell_chain sv (log_io Listen a) =
       (Inr (reply sv prompt),
        a\<lparr>memory := add_agent_message (reply sv prompt) (memory a),
          trace := trace a @ [Listen, Generate prompt]\<rparr>) \<and>
     messages (memory (snd (run_farewell_chain sv (log_io Listen a)))) =
       messages (memory a) @ [\<lparr>role = ''agent'', content = reply sv prompt\<rparr>]"
proof -
  assume r: "running a" and x: "list_ex (equal_ignoring_case utterance) exit_commands"
  obtain prompt where p: "format_prompt a (get_prompt_template a ''farewell'') '''' = Inr prompt"
    using template_formats by blast
  have p': "format_prompt (log_io Listen a) (get_prompt_template (log_io Listen a) ''farewell'') ''''
      = Inr prompt"
    using p format_prompt_memory[of "log_io Listen a" a]
      get_prompt_template_scenario[of "log_io Listen a" a]
    by (simp add: memory_log_io scenario_log_io)
  from x have "lower (lower utterance) \<in> set exit_commands"
    by (simp add: lower_idem exit_iff_ignoring_case)
  with r have "conversation_loop sv (Recognized utterance # evs) a = Some (None, log_io Listen a)"
    by (rule loop_exit)
  with p run_farewell_chain_eq[OF p', of sv] show ?thesis
    apply (intro exI[of _ prompt])
    by (simp add: log_io_def add_agent_message_def)
qed

theorem exit_command_leaves_history_witness:
  "running ((new_agent ''demo'')\<lparr>running := True\<rparr>) \<and>
   list_ex (equal_ignoring_case ''Bye-Bye'') exit_commands \<and>
   conversation_loop working_services [Recognized ''Bye-Bye'']
       ((new_agent ''demo'')\<lparr>running := True\<rparr>) =
     Some (None, log_io Listen ((new_agent ''demo'')\<lparr>running := True\<rparr>)) \<and>
   messages (memory (snd (run_farewell_chain working_services
       (log_io Listen ((new_agent ''demo'')\<lparr>running := True\<rparr>))))) =
     [\<lparr>role = ''agent'', content = ''Namaste''\<rparr>]"
proof -
  have x: "list_ex (equal_ignoring_case ''Bye-Bye'') exit_commands"
    by code_simp
  from exit_command_leaves_history
    [where a = "(new_agent ''demo'')\<lparr>running := True\<rparr>" and sv = working_services
       and utterance = "''Bye-Bye''" and evs = "[]", OF _ x]
  show ?thesis
    using x by (auto simp: reply_working new_agent_messages)
qed




section \<open>The call\<close>

text \<open>
  Claim C1, as stated: when an exception is raised during the active conversation, the
  call still attempts the farewell before it ends. In \<open>start_call\<close> the farewell is inside
  the \<open>try\<close> block, after the loop, and the \<open>except\<close> clause only reports the exception.
  In the demo scenario, with a backend that always answers, a microphone that fails at
  the first listen ends the call after the greeting: the trace after the greeting's
  generation is the greeting spoken, the listen, the report and the end, with no second
  generation and nothing spoken; the history holds the greeting alone.
\<close>

theorem start_call_mic_failure_skips_farewell:
  "map_option (tl \<circ> trace)
     (start_call working_services [MicFailure (Error ''no microphone'')] (new_agent ''demo'')) =
     Some [Speak ''Namaste'', Listen, Report (Error ''no microphone''), Ended] \<and>
   map_option (messages \<circ> memory)
     (start_call working_services [MicFailure (Error ''no microphone'')] (new_agent ''demo'')) =
     Some [\<lparr>role = ''agent'', content = ''Namaste''\<rparr>]"
  using start_call_mic_failure_working[of "Error ''no microphone''" "[]" "''demo''"]
  by (auto simp: add_agent_message_def new_agent_messages)

text \<open>
  Claim C1, amended: in every case in which \<open>start_call\<close> returns, after a normal exit or
  after a failure, the running flag is false; and it does return, whenever the script
  holds an exit command or a failure of the microphone. When an exception leaves the conversation
  loop (after the greeting was generated and spoken), \<open>start_call\<close> does not attempt the
  farewell: it reports the exception and ends the call, leaving the agent as it was at
  the failure but for the report and the end in the trace and the running flag. An
  exception of the microphone that \<open>recognize_speech\<close> does not catch leaves the loop so.
\<close>

theorem start_call_failure_ends_call:
  "(start_call sv script a = Some a' \<longrightarrow> \<not> running a') \<and>
   (list_ex stops script \<longrightarrow> (\<exists>a''. start_call sv script a = Some a'' \<and> \<not> running a'')) \<and>
   (run_greeting_chain sv (a\<lparr>running := True\<rparr>) = (Inr g, ag) \<and> playback sv g = None \<and>
    conversation_loop sv script (log_io (Speak g) ag) = Some (Some e, af) \<longrightarrow>
      start_call sv script a =
        Some (af\<lparr>running := False, trace := trace af @ [Report e, Ended]\<rparr>)) \<and>
   (running b \<longrightarrow>
      conversation_loop sv (MicFailure e # evs) b = Some (Some e, log_io Listen b))"
proof (intro conjI impI)
  assume "list_ex stops script"
  then obtain a'' where "start_call sv script a = Some a''"
    using start_call_returns by blast
  then show "\<exists>a''. start_call sv script a = Some a'' \<and> \<not> running a''"
    using start_call_ends by blast
qed (auto simp: start_call_ends start_call_loop_failure loop_mic_failure)

theorem start_call_failure_ends_call_witness:
  "running ((new_agent ''payment'')\<lparr>running := True\<rparr>) \<and>
   conversation_loop working_services [MicFailure (Error ''line dropped'')]
       ((new_agent ''payment'')\<lparr>running := True\<rparr>) =
     Some (Some (Error ''line dropped''),
           log_io Listen ((new_agent ''payment'')\<lparr>running := True\<rparr>)) \<and>
   map_option (tl \<circ> trace)
     (start_call working_services [MicFailure (Error ''line dropped'')] (new_agent ''payment'')) =
     Some [Speak ''Namaste'', Listen, Report (Error ''line dropped''), Ended] \<and>
   map_option running
     (start_call working_services [MicFailure (Error ''line dropped'')] (new_agent ''payment'')) =
     Some False"
proof -
  let ?A = "(new_agent ''payment'')\<lparr>running := True\<rparr>"
  let ?e = "Error ''line dropped''"
  obtain prompt where "format_prompt ?A (get_prompt_template ?A ''greeting'') '''' = Inr prompt"
    using template_formats by blast
  note g = run_greeting_chain_eq[OF this, of working_services, unfolded reply_working]
  let ?ag = "?A\<lparr>memory := add_agent_message ''Namaste'' (memory ?A),
                trace := trace ?A @ [Generate prompt]\<rparr>"
  note inst = start_call_failure_ends_call
    [where sv = working_services and script = "[MicFailure ?e]" and a = "new_agent ''payment''"
       and e = ?e and evs = "[]" and g = "''Namaste''" and ag = ?ag]
  have l: "conversation_loop working_services [MicFailure ?e] (log_io (Speak ''Namaste'') ?ag) =
      Some (Some ?e, log_io Listen (log_io (Speak ''Namaste'') ?ag))"
    using inst[where b = "log_io (Speak ''Namaste'') ?ag"] by (simp add: running_log_io)
  have s: "start_call working_services [MicFailure ?e] (new_agent ''payment'') =
      Some ((log_io Listen (log_io (Speak ''Namaste'') ?ag))
              \<lparr>running := False,
                trace := trace (log_io Listen (log_io (Speak ''Namaste'') ?ag)) @ [Report ?e, Ended]\<rparr>)"
    using inst[where af = "log_io Listen (log_io (Speak ''Namaste'') ?ag)"] g l playback_working
    by simp
  have r: "\<not> running (the (start_call working_services [MicFailure ?e] (new_agent ''payment'')))"
    using inst[where a' = "the (start_call working_services [MicFailure ?e] (new_agent ''payment''))"] s
    by simp
  show ?thesis
    using inst[where b = ?A] s r by (simp add: log_io_def new_agent_trace)
qed

section \<open>Formatting a prompt\<close>

text \<open>
  Claim C6: for every template of the catalog and every state of the profile and the
  knowledge, \<open>_format_prompt\<close> returns a prompt: it never raises. A placeholder of the
  profile or of the knowledge whose key is missing is replaced by the empty string: the
  prompt is that of the template without the placeholder. A placeholder whose name is
  outside the fixed set makes the formatting fail, with one of the three exceptions of
  \<open>str.format\<close>, whether the name is followed by the closing brace or by a conversion, a
  format specification, an attribute or an index. In the last two statements the
  placeholder follows any text that itself formats.
\<close>

theorem format_prompt_placeholders:
  "(t \<in> set catalog \<longrightarrow> (\<exists>p. format_prompt a t u = Inr p)) \<and>
   (format_prompt a pre u = Inr out \<and>
    (k \<in> set profile_placeholders \<and> get_context (memory a) ''profile'' Map.empty k = None \<or>
     k \<in> set knowledge_placeholders \<and> get_context (memory a) ''knowledge'' Map.empty k = None) \<longrightarrow>
      format_prompt a (pre @ ''{'' @ k @ ''}'' @ post) u = format_prompt a (pre @ post) u) \<and>
   (format_prompt a pre u = Inr out \<and> plain_name n \<and> n \<notin> set placeholders \<and>
    ends_name tail \<longrightarrow>
      (\<exists>e. format_prompt a (pre @ ''{'' @ n @ tail) u = Inl e \<and>
           (e = KeyError n \<or> e = IndexError \<or> e = ValueError)))"
proof (intro conjI impI)
  assume "t \<in> set catalog"
  then show "\<exists>p. format_prompt a t u = Inr p" by (rule catalog_formats)
next
  assume h: "format_prompt a pre u = Inr out \<and>
    (k \<in> set profile_placeholders \<and> get_context (memory a) ''profile'' Map.empty k = None \<or>
     k \<in> set knowledge_placeholders \<and> get_context (memory a) ''knowledge'' Map.empty k = None)"
  then have "k \<in> set placeholders" "format_kwargs a u k = Some ''''"
    by (auto simp: placeholders_def format_kwargs_profile format_kwargs_knowledge dict_get_def)
  with h show "format_prompt a (pre @ ''{'' @ k @ ''}'' @ post) u = format_prompt a (pre @ post) u"
    using format_prompt_blank_field by blast
next
  assume h: "format_prompt a pre u = Inr out \<and> plain_name n \<and> n \<notin> set placeholders \<and>
    ends_name tail"
  then show "\<exists>e. format_prompt a (pre @ ''{'' @ n @ tail) u = Inl e \<and>
           (e = KeyError n \<or> e = IndexError \<or> e = ValueError)"
    using format_prompt_unknown_field[of a pre u out n tail] by blast
qed

theorem format_prompt_placeholders_witness:
  "demo_greeting \<in> set catalog \<and>
   (\<exists>p. format_prompt (new_agent ''demo'') demo_greeting '''' = Inr p) \<and>
   format_prompt (new_agent ''demo'') ''Experience: '' '''' = Inr ''Experience: '' \<and>
   ''experience'' \<in> set profile_placeholders \<and>
   get_context (memory (new_agent ''demo'')) ''profile'' Map.empty ''experience'' = None \<and>
   format_prompt (new_agent ''demo'') ''Experience: {experience}.'' '''' = Inr ''Experience: .'' \<and>
   format_prompt (new_agent ''demo'') ''Budget: '' '''' = Inr ''Budget: '' \<and>
   plain_name ''budget'' \<and> ''budget'' \<notin> set placeholders \<and>
   ends_name ''}'' \<and> isl (format_prompt (new_agent ''demo'') ''Budget: {budget}'' '''') \<and>
   ends_name ''!r}'' \<and> isl (format_prompt (new_agent ''demo'') ''Budget: {budget!r}'' '''') \<and>
   format_prompt (new_agent ''demo'') ''Budget: {budget!r}'' '''' = Inl (KeyError ''budget'')"
proof -
  have c: "demo_greeting \<in> set catalog"
    by (simp add: catalog_def templates_def)
  note inst = format_prompt_placeholders
    [where a = "new_agent ''demo''" and u = "''''" and t = demo_greeting]
  have 1: "\<exists>p. format_prompt (new_agent ''demo'') demo_greeting '''' = Inr p"
    using inst c by blast
  have 2: "format_prompt (new_agent ''demo'') ''Experience: {experience}.'' '''' = Inr ''Experience: .''"
    using inst[where pre = "''Experience: ''" and out = "''Experience: ''" and k = "''experience''"
        and post = "''.''"] demo_examples
    by simp
  have "\<exists>e. format_prompt (new_agent ''demo'') (''Budget: '' @ ''{'' @ ''budget'' @ ''}'') '''' = Inl e"
    using inst[where pre = "''Budget: ''" and out = "''Budget: ''" and n = "''budget''"
        and tail = "''}''"] demo_examples(3,5,6,8)
    by blast
  then have 3: "isl (format_prompt (new_agent ''demo'') ''Budget: {budget}'' '''')"
    by auto
  have "\<exists>e. format_prompt (new_agent ''demo'') (''Budget: '' @ ''{'' @ ''budget'' @ ''!r}'') '''' = Inl e"
    using inst[where pre = "''Budget: ''" and out = "''Budget: ''" and n = "''budget''"
        and tail = "''!r}''"] demo_examples(3,5,6,9)
    by blast
  then have 4: "isl (format_prompt (new_agent ''demo'') ''Budget: {budget!r}'' '''')"
    by auto
  show ?thesis
    using c 1 2 3 4 demo_examples by simp
qed

end
